theory Spec2Isabelle
  imports Complex_Main "HOL-Library.Word" "HOL-Library.AList"
begin

section \<open>Data model (ecs.go)\<close>

text \<open>
  The engine stores \<^verbatim>\<open>float64\<close> coordinates. They are kept abstract here: every
  component type takes the number type as a parameter \<open>'f\<close>, and a function that
  computes with coordinates asks only for the syntax it uses: the operations \<open>+\<close>, \<open>-\<close>,
  \<open>*\<close>, \<open>/\<close>, \<open><\<close> and, in the collision test, the numeral 2. No proof below uses an
  algebraic law of these operations, so the general theorems do not depend on how the
  arithmetic rounds. Concrete scenarios are run at \<open>'f = real\<close>.

  A Go pointer to a component struct is modelled by the struct's value: the functions
  below read a component through the pointer they fetched from the store and write it
  back through the same pointer, which is an update of the store entry. Each struct is
  taken to sit in one store entry only.
\<close>

record 'f PositionComponent =
  PosX :: 'f
  PosY :: 'f

record 'f VelocityComponent =
  VelX :: 'f
  VelY :: 'f

record 'f SizeComponent =
  SizeWidth :: 'f
  SizeHeight :: 'f
  TopOffset :: 'f
  BottomOffset :: 'f
  LeftOffset :: 'f
  RightOffset :: 'f

record 'f ColliderComponent =
  Group :: string
  CrossShape :: bool
  OffsetX :: 'f
  OffsetY :: 'f
  Width :: 'f
  Height :: 'f
  HorizWidth :: 'f
  HorizHeight :: 'f
  VertWidth :: 'f
  VertHeight :: 'f

text \<open>
  \<^verbatim>\<open>type Component interface{}\<close>: a dynamically typed value. The constructors are the
  dynamic types the engine itself stores or type-asserts; \<open>OtherValue\<close> stands for any
  other value (for instance the \<^verbatim>\<open>update\<close> and \<^verbatim>\<open>draw\<close> callbacks), \<open>NilValue\<close> for
  the nil interface.
\<close>

datatype 'f Component =
    NilValue
  | PositionPtr "'f PositionComponent"
  | VelocityPtr "'f VelocityComponent"
  | SizePtr "'f SizeComponent"
  | ColliderPtr "'f ColliderComponent"
  | BoolValue bool
  | StringValue string
  | OtherValue nat

type_synonym Entity = "32 word"

text \<open>
  \<^verbatim>\<open>sync.Map\<close> and Go's built-in \<^verbatim>\<open>map\<close> are association lists with one entry per
  key; the order of the list is the order in which \<^verbatim>\<open>Range\<close> (or \<^verbatim>\<open>for ... range\<close>)
  visits the entries, which Go leaves unspecified. \<^verbatim>\<open>Load\<close> is \<^const>\<open>map_of\<close>,
  \<^verbatim>\<open>Store\<close> is \<^const>\<open>AList.update\<close>, \<^verbatim>\<open>Delete\<close> is \<^const>\<open>AList.delete\<close>.
\<close>

type_synonym ('k, 'v) syncMap = "('k \<times> 'v) list"

text \<open>
  The keys of \<^verbatim>\<open>indentToEntity\<close> are interface values: \<^verbatim>\<open>AddEntity\<close> stores
  strings, \<^verbatim>\<open>FromSerializable\<close> stores \<^verbatim>\<open>uint32\<close> values.
\<close>

datatype IdentKey = StringKey string | Uint32Key "32 word"

record 'f ECSManager =
  lastEntityID :: "32 word"
  entities :: "(Entity, bool) syncMap"
  indentToEntity :: "(IdentKey, Entity) syncMap"
  components :: "(Entity, (string, 'f Component) syncMap) syncMap"

text \<open>
  A Go call either returns or panics. The package-level \<^verbatim>\<open>Mecs\<close> and the manager a
  method is called on are one object (\<^verbatim>\<open>Init\<close> builds every system from the same
  \<^verbatim>\<open>NewECSManager()\<close>), so both are the one state that is passed along. The logger only
  prints and is left out, as is the table of systems.
\<close>

datatype 'a outcome = Panics | Returns 'a

definition NewECSManager :: "'f ECSManager" where
  "NewECSManager = \<lparr>lastEntityID = 0, entities = [], indentToEntity = [], components = []\<rparr>"

definition AddEntity :: "string list \<Rightarrow> 'f ECSManager \<Rightarrow> 'f ECSManager \<times> Entity" where
  "AddEntity ident em =
     (let eid = lastEntityID em + 1;
          em1 = em\<lparr>lastEntityID := eid,
                   entities := AList.update eid True (entities em),
                   components := AList.update eid [] (components em)\<rparr>
      in (case ident of
            [] \<Rightarrow> (em1, eid)
          | i # _ \<Rightarrow>
              (em1\<lparr>indentToEntity := AList.update (StringKey i) eid (indentToEntity em1)\<rparr>, eid)))"

text \<open>The first key, in \<^verbatim>\<open>Range\<close> order, whose value is the entity.\<close>

fun firstKeyOf :: "Entity \<Rightarrow> (IdentKey, Entity) syncMap \<Rightarrow> IdentKey option" where
  "firstKeyOf e [] = None"
| "firstKeyOf e ((k, v) # rest) = (if v = e then Some k else firstKeyOf e rest)"

definition RemoveEntity :: "Entity \<Rightarrow> 'f ECSManager \<Rightarrow> 'f ECSManager" where
  "RemoveEntity e em =
     em\<lparr>indentToEntity :=
          (case firstKeyOf e (indentToEntity em) of
             None \<Rightarrow> indentToEntity em
           | Some k \<Rightarrow> AList.delete k (indentToEntity em)),
        entities := AList.delete e (entities em),
        components := AList.delete e (components em)\<rparr>"

definition GetEntityByIdent :: "'f ECSManager \<Rightarrow> string \<Rightarrow> Entity \<times> bool" where
  "GetEntityByIdent em ident =
     (case map_of (indentToEntity em) (StringKey ident) of
        None \<Rightarrow> (0, False)
      | Some v \<Rightarrow> (v, True))"

definition GetEntityByID :: "'f ECSManager \<Rightarrow> Entity \<Rightarrow> Entity \<times> bool" where
  "GetEntityByID em eid = (eid, map_of (entities em) eid \<noteq> None)"

text \<open>
  \<^verbatim>\<open>AddComponent\<close> type-asserts the looked-up store without the two-value form, so a
  live entity without a store makes it panic.
\<close>

definition AddComponent ::
  "Entity \<Rightarrow> string \<Rightarrow> 'f Component \<Rightarrow> 'f ECSManager \<Rightarrow> 'f ECSManager outcome" where
  "AddComponent e name cv em =
     (if map_of (entities em) e = None then Returns em
      else (case map_of (components em) e of
              None \<Rightarrow> Panics
            | Some cm \<Rightarrow>
                Returns (em\<lparr>components := AList.update e (AList.update name cv cm) (components em)\<rparr>)))"

fun AddComponents ::
  "Entity \<Rightarrow> (string \<times> 'f Component) list \<Rightarrow> 'f ECSManager \<Rightarrow> 'f ECSManager outcome" where
  "AddComponents e [] em = Returns em"
| "AddComponents e ((n, c) # comps) em =
     (case AddComponent e n c em of
        Panics \<Rightarrow> Panics
      | Returns em' \<Rightarrow> AddComponents e comps em')"

definition SetComponent :: "Entity \<Rightarrow> string \<Rightarrow> 'f Component \<Rightarrow> 'f ECSManager \<Rightarrow> 'f ECSManager" where
  "SetComponent e name cv em =
     (case map_of (components em) e of
        None \<Rightarrow> em
      | Some cm \<Rightarrow> em\<lparr>components := AList.update e (AList.update name cv cm) (components em)\<rparr>)"

definition GetComponent :: "'f ECSManager \<Rightarrow> Entity \<Rightarrow> string \<Rightarrow> 'f Component" where
  "GetComponent em e name =
     (case map_of (components em) e of
        None \<Rightarrow> NilValue
      | Some cm \<Rightarrow> (case map_of cm name of None \<Rightarrow> NilValue | Some cv \<Rightarrow> cv))"

definition RemoveComponent :: "Entity \<Rightarrow> string \<Rightarrow> 'f ECSManager \<Rightarrow> 'f ECSManager" where
  "RemoveComponent e name em =
     (case map_of (components em) e of
        None \<Rightarrow> em
      | Some cm \<Rightarrow> em\<lparr>components := AList.update e (AList.delete name cm) (components em)\<rparr>)"

definition HasComponent :: "'f ECSManager \<Rightarrow> Entity \<Rightarrow> string \<Rightarrow> bool" where
  "HasComponent em e name =
     (case map_of (components em) e of
        None \<Rightarrow> False
      | Some cm \<Rightarrow> map_of cm name \<noteq> None)"

text \<open>
  \<^verbatim>\<open>GetEntitiesWithComponents\<close>: the callback given to \<^verbatim>\<open>entities.Range\<close> appends the
  entity unless its store is missing or one of the names is.
\<close>

definition hasAllNames :: "(string, 'f Component) syncMap \<Rightarrow> string list \<Rightarrow> bool" where
  "hasAllNames cm names = list_all (\<lambda>n. map_of cm n \<noteq> None) names"

definition GetEntitiesWithComponents :: "'f ECSManager \<Rightarrow> string list \<Rightarrow> Entity list" where
  "GetEntitiesWithComponents em names =
     filter (\<lambda>e. case map_of (components em) e of
                   None \<Rightarrow> False
                 | Some cm \<Rightarrow> hasAllNames cm names)
            (map fst (entities em))"

text \<open>
  Every entity in the registry has a component store, and the entity map holds each
  entity once. \<^verbatim>\<open>NewECSManager\<close> establishes this and the entity operations keep it.
\<close>

definition registry_ok :: "'f ECSManager \<Rightarrow> bool" where
  "registry_ok em \<longleftrightarrow>
     distinct (map fst (entities em))
     \<and> list_all (\<lambda>e. map_of (components em) e \<noteq> None) (map fst (entities em))"

subsection \<open>Serialization\<close>

text \<open>
  \<^verbatim>\<open>encoding/gob\<close> is not part of the repository. The encoder and the decoder are
  parameters: a function from the value to either an error or the bytes, and a function
  from the bytes to either an error or the value. Nothing is assumed about them.
\<close>

type_synonym gobError = string
type_synonym bytes = "8 word list"

record 'f SerializableECSManager =
  LastEntityID :: "32 word"
  Entities :: "(Entity \<times> bool) list"
  Components :: "(Entity \<times> (string \<times> 'f Component) list) list"
  identMap :: "(32 word \<times> Entity) list"

record 'f SerializableEntity =
  ID :: Entity
  Ident :: string
  EntityComponents :: "(string \<times> 'f Component) list"

text \<open>Copying a \<^verbatim>\<open>sync.Map\<close> into a fresh Go map, entry by entry in \<^verbatim>\<open>Range\<close> order.\<close>

definition copyToMap :: "('k, 'v) syncMap \<Rightarrow> ('k \<times> 'v) list" where
  "copyToMap m = foldl (\<lambda>acc (k, v). AList.update k v acc) [] m"

text \<open>
  The third loop of \<^verbatim>\<open>ToSerializable\<close> asserts every key of \<^verbatim>\<open>indentToEntity\<close> to be a
  \<^verbatim>\<open>uint32\<close>, in the one-value form that panics on any other dynamic type.
\<close>

fun copyIdentMap ::
  "(IdentKey, Entity) syncMap \<Rightarrow> (32 word \<times> Entity) list \<Rightarrow> (32 word \<times> Entity) list outcome" where
  "copyIdentMap [] acc = Returns acc"
| "copyIdentMap ((Uint32Key k, v) # rest) acc = copyIdentMap rest (AList.update k v acc)"
| "copyIdentMap ((StringKey k, v) # rest) acc = Panics"

definition ToSerializable :: "'f ECSManager \<Rightarrow> 'f SerializableECSManager outcome" where
  "ToSerializable em =
     (let ents = copyToMap (entities em);
          comps = copyToMap (map (\<lambda>(e, cm). (e, copyToMap cm)) (components em))
      in (case copyIdentMap (indentToEntity em) [] of
            Panics \<Rightarrow> Panics
          | Returns idm \<Rightarrow>
              Returns \<lparr>LastEntityID = lastEntityID em, Entities = ents,
                       Components = comps, identMap = idm\<rparr>))"

definition restoreEntity ::
  "'f SerializableECSManager \<Rightarrow> 'f ECSManager \<Rightarrow> Entity \<times> bool \<Rightarrow> 'f ECSManager" where
  "restoreEntity data em ea =
     (case ea of (e, active) \<Rightarrow>
        (let cm = (case map_of (Components data) e of
                     None \<Rightarrow> []
                   | Some comps \<Rightarrow> copyToMap comps)
         in em\<lparr>entities := AList.update e active (entities em),
               components := AList.update e cm (components em)\<rparr>))"

definition FromSerializable :: "'f ECSManager \<Rightarrow> 'f SerializableECSManager \<Rightarrow> 'f ECSManager" where
  "FromSerializable em data =
     (let em1 = em\<lparr>lastEntityID := LastEntityID data\<rparr>;
          em2 = foldl (restoreEntity data) em1 (Entities data)
      in em2\<lparr>indentToEntity :=
               foldl (\<lambda>m (ident, e). AList.update (Uint32Key ident) e m)
                     (indentToEntity em2) (identMap data)\<rparr>)"

text \<open>
  \<^verbatim>\<open>Encode\<close> returns \<^verbatim>\<open>([]byte, error)\<close>: \<open>Inl\<close> is the error return (with a nil
  slice), \<open>Inr\<close> the bytes (with a nil error).
\<close>

definition Encode ::
  "('f SerializableECSManager \<Rightarrow> gobError + bytes) \<Rightarrow> 'f ECSManager \<Rightarrow> (gobError + bytes) outcome" where
  "Encode gobEncode em =
     (case ToSerializable em of
        Panics \<Rightarrow> Panics
      | Returns sData \<Rightarrow> Returns (gobEncode sData))"

text \<open>\<^verbatim>\<open>Decode\<close> returns the error (or nil) and leaves the manager updated.\<close>

definition Decode ::
  "(bytes \<Rightarrow> gobError + 'f SerializableECSManager) \<Rightarrow> bytes \<Rightarrow> 'f ECSManager
     \<Rightarrow> 'f ECSManager \<times> gobError option" where
  "Decode gobDecode data em =
     (case gobDecode data of
        Inl err \<Rightarrow> (em, Some err)
      | Inr sData \<Rightarrow> (FromSerializable em sData, None))"

text \<open>
  \<^verbatim>\<open>EncodeEntity\<close>: the store is looked up and type-asserted in the one-value form; the
  stable identifier is the first key of \<^verbatim>\<open>indentToEntity\<close> that maps to the entity,
  asserted to be a string.
\<close>

definition EncodeEntity ::
  "('f SerializableEntity \<Rightarrow> gobError + bytes) \<Rightarrow> 'f ECSManager \<Rightarrow> Entity
     \<Rightarrow> (gobError + bytes) outcome" where
  "EncodeEntity gobEncode em e =
     (case map_of (components em) e of
        None \<Rightarrow> Panics
      | Some cm \<Rightarrow>
          (let comps = copyToMap cm in
           (case firstKeyOf e (indentToEntity em) of
              Some (Uint32Key k) \<Rightarrow> Panics
            | Some (StringKey i) \<Rightarrow>
                Returns (gobEncode \<lparr>ID = e, Ident = i, EntityComponents = comps\<rparr>)
            | None \<Rightarrow>
                Returns (gobEncode \<lparr>ID = e, Ident = [], EntityComponents = comps\<rparr>))))"

text \<open>
  \<^verbatim>\<open>DecodeEntity\<close> returns \<^verbatim>\<open>(Entity, error)\<close>; on a decoding error the entity is 0
  and nothing else has run.
\<close>

definition DecodeEntity ::
  "(bytes \<Rightarrow> gobError + 'f SerializableEntity) \<Rightarrow> bytes \<Rightarrow> 'f ECSManager
     \<Rightarrow> ('f ECSManager \<times> Entity \<times> gobError option) outcome" where
  "DecodeEntity gobDecode data em =
     (case gobDecode data of
        Inl err \<Rightarrow> Returns (em, 0, Some err)
      | Inr entityData \<Rightarrow>
          (let (em1, target) =
                 (if Ident entityData \<noteq> []
                  then (case GetEntityByIdent em (Ident entityData) of
                          (ex, True) \<Rightarrow> (em, ex)
                        | (_, False) \<Rightarrow> AddEntity [Ident entityData] em)
                  else AddEntity [] em)
           in (case AddComponents target (EntityComponents entityData) em1 of
                 Panics \<Rightarrow> Panics
               | Returns em2 \<Rightarrow> Returns (em2, target, None))))"

section \<open>Physics system\<close>

text \<open>Type assertions in the two-value form: \<open>None\<close> is \<^verbatim>\<open>ok == false\<close>.\<close>

fun asPosition :: "'f Component \<Rightarrow> 'f PositionComponent option" where
  "asPosition (PositionPtr p) = Some p"
| "asPosition _ = None"

fun asVelocity :: "'f Component \<Rightarrow> 'f VelocityComponent option" where
  "asVelocity (VelocityPtr v) = Some v"
| "asVelocity _ = None"

fun asSize :: "'f Component \<Rightarrow> 'f SizeComponent option" where
  "asSize (SizePtr s) = Some s"
| "asSize _ = None"

fun asCollider :: "'f Component \<Rightarrow> 'f ColliderComponent option" where
  "asCollider (ColliderPtr c) = Some c"
| "asCollider _ = None"

fun asString :: "'f Component \<Rightarrow> string option" where
  "asString (StringValue s) = Some s"
| "asString _ = None"

text \<open>
  An assignment through the pointer that the store holds under a name: the entry is
  replaced where it stands.
\<close>

definition assignThrough :: "Entity \<Rightarrow> string \<Rightarrow> 'f Component \<Rightarrow> 'f ECSManager \<Rightarrow> 'f ECSManager" where
  "assignThrough e name cv em =
     (case map_of (components em) e of
        None \<Rightarrow> em
      | Some cm \<Rightarrow> em\<lparr>components := AList.update e (AList.update name cv cm) (components em)\<rparr>)"

definition AddCollider :: "'f::zero \<Rightarrow> 'f \<Rightarrow> 'f \<Rightarrow> 'f \<Rightarrow> 'f ECSManager \<Rightarrow> 'f ECSManager outcome" where
  "AddCollider x y width height em =
     (case AddEntity [] em of (em1, entity) \<Rightarrow>
        AddComponents entity
          [(''position'', PositionPtr \<lparr>PosX = x, PosY = y\<rparr>),
           (''size'', SizePtr \<lparr>SizeWidth = width, SizeHeight = height, TopOffset = 0,
                               BottomOffset = 0, LeftOffset = 0, RightOffset = 0\<rparr>),
           (''solid'', BoolValue True)] em1)"

fun containsEntity :: "Entity list \<Rightarrow> Entity \<Rightarrow> bool" where
  "containsEntity [] entity = False"
| "containsEntity (e # es) entity = (if e = entity then True else containsEntity es entity)"

definition isColliding ::
  "'f::{plus,minus,ord} \<Rightarrow> 'f \<Rightarrow> 'f SizeComponent \<Rightarrow> 'f PositionComponent \<Rightarrow> 'f SizeComponent \<Rightarrow> bool" where
  "isColliding x1 y1 size1 pos2 size2 =
     (let x1Min = x1 - LeftOffset size1;
          x1Max = x1 + SizeWidth size1 + RightOffset size1;
          y1Min = y1 - TopOffset size1;
          y1Max = y1 + SizeHeight size1 + BottomOffset size1;
          x2Min = PosX pos2 - LeftOffset size2;
          x2Max = PosX pos2 + SizeWidth size2 + RightOffset size2;
          y2Min = PosY pos2 - TopOffset size2;
          y2Max = PosY pos2 + SizeHeight size2 + BottomOffset size2
      in x1Min < x2Max \<and> x1Max > x2Min \<and> y1Min < y2Max \<and> y1Max > y2Min)"

text \<open>
  The variables one iteration of the loop over \<^verbatim>\<open>solidEntities\<close> reads and assigns:
  \<^verbatim>\<open>newX\<close>, \<^verbatim>\<open>newY\<close> and the velocity struct.
\<close>

type_synonym 'f moving = "'f \<times> 'f \<times> 'f VelocityComponent"

text \<open>The loop's first \<^verbatim>\<open>continue\<close>: the obstacle is the entity itself or is excluded.\<close>

definition skipsObstacle :: "Entity \<Rightarrow> bool \<Rightarrow> Entity list \<Rightarrow> Entity \<Rightarrow> bool" where
  "skipsObstacle e hasExclude excludeEntities other \<longleftrightarrow>
     other = e \<or> (hasExclude \<and> containsEntity excludeEntities other)"

definition resolveObstacle ::
  "'f::{zero,plus,minus,ord} ECSManager \<Rightarrow> Entity \<Rightarrow> bool \<Rightarrow> Entity list
     \<Rightarrow> 'f PositionComponent \<Rightarrow> 'f SizeComponent \<Rightarrow> 'f moving \<Rightarrow> Entity \<Rightarrow> 'f moving" where
  "resolveObstacle em e hasExclude excludeEntities pos size1 st other =
     (case st of (newX, newY, vel) \<Rightarrow>
        if skipsObstacle e hasExclude excludeEntities other then st
        else (case asPosition (GetComponent em other ''position'') of
                None \<Rightarrow> st
              | Some otherPos \<Rightarrow>
                  (case asSize (GetComponent em other ''size'') of
                     None \<Rightarrow> st
                   | Some otherSize \<Rightarrow>
                       (let wouldCollideX = isColliding newX (PosY pos) size1 otherPos otherSize;
                            wouldCollideY = isColliding (PosX pos) newY size1 otherPos otherSize;
                            (newX, vel) = (if wouldCollideX then (PosX pos, vel\<lparr>VelX := 0\<rparr>)
                                           else (newX, vel));
                            (newY, vel) = (if wouldCollideY then (PosY pos, vel\<lparr>VelY := 0\<rparr>)
                                           else (newY, vel))
                        in (newX, newY, vel)))))"

text \<open>
  \<^verbatim>\<open>processEntity\<close>, with the package variable \<^verbatim>\<open>Gravity\<close> as the first argument. The
  position and the velocity are written through their pointers; the other entities'
  components are only read.
\<close>

definition processEntity ::
  "'f::{zero,plus,minus,times,ord} \<Rightarrow> 'f ECSManager \<Rightarrow> Entity \<Rightarrow> 'f \<Rightarrow> 'f ECSManager" where
  "processEntity gravity em e deltaTime =
     (case asPosition (GetComponent em e ''position'') of
        None \<Rightarrow> em
      | Some pos \<Rightarrow>
     (case asVelocity (GetComponent em e ''velocity'') of
        None \<Rightarrow> em
      | Some vel0 \<Rightarrow>
     (case asSize (GetComponent em e ''size'') of
        None \<Rightarrow> em
      | Some size1 \<Rightarrow>
          (let hasExclude = (asString (GetComponent em e ''solidexclude'') \<noteq> None);
               vel = vel0\<lparr>VelY := VelY vel0 + gravity * deltaTime\<rparr>;
               newX = PosX pos + VelX vel * deltaTime;
               newY = PosY pos + VelY vel * deltaTime;
               solidEntities = GetEntitiesWithComponents em [''position'', ''size'', ''solid''];
               excludeEntities =
                 (case asString (GetComponent em e ''solidexclude'') of
                    None \<Rightarrow> []
                  | Some excludeComp \<Rightarrow>
                      if excludeComp \<noteq> [] then GetEntitiesWithComponents em [excludeComp] else [])
           in (case foldl (resolveObstacle em e hasExclude excludeEntities pos size1)
                          (newX, newY, vel) solidEntities of
                 (newX, newY, vel) \<Rightarrow>
                   assignThrough e ''position'' (PositionPtr (pos\<lparr>PosX := newX, PosY := newY\<rparr>))
                     (assignThrough e ''velocity'' (VelocityPtr vel) em))))))"

text \<open>
  \<^verbatim>\<open>PhysicsSystem.Update\<close> starts one goroutine per entity and waits for all of them.
  The schedule modelled here runs the tasks one after the other, in the order of the
  query; with a single moving entity there is no other schedule.
\<close>

definition PhysicsSystem_Update ::
  "'f::{zero,plus,minus,times,ord} \<Rightarrow> 'f ECSManager \<Rightarrow> 'f \<Rightarrow> 'f ECSManager" where
  "PhysicsSystem_Update gravity em deltaTime =
     foldl (\<lambda>em' entity. processEntity gravity em' entity deltaTime) em
           (GetEntitiesWithComponents em [''position'', ''velocity'', ''size''])"

text \<open>
  Names for what \<^verbatim>\<open>processEntity\<close> computes before and inside its loop, used to state
  its result: the solid entities it ranges over, the entities it excludes, the obstacles
  that are left after the loop's first \<^verbatim>\<open>continue\<close>, and the overlap test of one
  iteration, which is false when the obstacle's position or size fails its type
  assertion (the second \<^verbatim>\<open>continue\<close>).
\<close>

definition solidEntitiesOf :: "'f ECSManager \<Rightarrow> Entity list" where
  "solidEntitiesOf em = GetEntitiesWithComponents em [''position'', ''size'', ''solid'']"

definition excludeEntitiesOf :: "'f ECSManager \<Rightarrow> Entity \<Rightarrow> Entity list" where
  "excludeEntitiesOf em e =
     (case asString (GetComponent em e ''solidexclude'') of
        None \<Rightarrow> []
      | Some excludeComp \<Rightarrow>
          if excludeComp \<noteq> [] then GetEntitiesWithComponents em [excludeComp] else [])"

definition obstaclesOf :: "'f ECSManager \<Rightarrow> Entity \<Rightarrow> Entity list" where
  "obstaclesOf em e =
     filter (\<lambda>other. \<not> skipsObstacle e (asString (GetComponent em e ''solidexclude'') \<noteq> None)
                         (excludeEntitiesOf em e) other)
            (solidEntitiesOf em)"

definition collidesWith ::
  "'f::{plus,minus,ord} ECSManager \<Rightarrow> 'f \<Rightarrow> 'f \<Rightarrow> 'f SizeComponent \<Rightarrow> Entity \<Rightarrow> bool" where
  "collidesWith em x y size1 other \<longleftrightarrow>
     (case asPosition (GetComponent em other ''position'') of
        None \<Rightarrow> False
      | Some otherPos \<Rightarrow>
          (case asSize (GetComponent em other ''size'') of
             None \<Rightarrow> False
           | Some otherSize \<Rightarrow> isColliding x y size1 otherPos otherSize))"

definition hitsX ::
  "'f::{plus,minus,ord} ECSManager \<Rightarrow> Entity \<Rightarrow> bool \<Rightarrow> Entity list \<Rightarrow> 'f PositionComponent
     \<Rightarrow> 'f SizeComponent \<Rightarrow> 'f \<Rightarrow> Entity \<Rightarrow> bool" where
  "hitsX em e hasExclude excludeEntities pos size1 x other \<longleftrightarrow>
     \<not> skipsObstacle e hasExclude excludeEntities other
     \<and> collidesWith em x (PosY pos) size1 other"

definition hitsY ::
  "'f::{plus,minus,ord} ECSManager \<Rightarrow> Entity \<Rightarrow> bool \<Rightarrow> Entity list \<Rightarrow> 'f PositionComponent
     \<Rightarrow> 'f SizeComponent \<Rightarrow> 'f \<Rightarrow> Entity \<Rightarrow> bool" where
  "hitsY em e hasExclude excludeEntities pos size1 y other \<longleftrightarrow>
     \<not> skipsObstacle e hasExclude excludeEntities other
     \<and> collidesWith em (PosX pos) y size1 other"

section \<open>Collision engine (collisions.go)\<close>

text \<open>
  A handler is three optional callbacks. The callbacks are code of the game, not of the
  engine: a field is \<open>True\<close> when it holds a function, and a call of it is recorded in
  the trace of the tick. The callbacks are taken not to change the registry or the
  collision manager while the tick runs.
\<close>

record CollisionHandler =
  Enter :: bool
  Stay :: bool
  Leave :: bool

datatype phase = OnEnter | OnStay | OnLeave

text \<open>
  What a tick does for an ordered pair: an overlap test with its result, or a call of one
  of the handler's callbacks with the two entities in that order.
\<close>

datatype action = Tested bool | Called phase

type_synonym event = "Entity \<times> Entity \<times> action"

record CollisionManager =
  handlers :: "string \<rightharpoonup> (string \<rightharpoonup> CollisionHandler)"
  previousCollisions :: "(string, bool) syncMap"

definition NewCollisionManager :: CollisionManager where
  "NewCollisionManager = \<lparr>handlers = Map.empty, previousCollisions = []\<rparr>"

definition AddResolve :: "string \<Rightarrow> string \<Rightarrow> CollisionHandler \<Rightarrow> CollisionManager \<Rightarrow> CollisionManager" where
  "AddResolve groupA groupB handler cm =
     (let inner = (case handlers cm groupA of None \<Rightarrow> Map.empty | Some hs \<Rightarrow> hs)
      in cm\<lparr>handlers := (handlers cm)(groupA \<mapsto> inner(groupB \<mapsto> handler))\<rparr>)"

definition getHandler :: "CollisionManager \<Rightarrow> string \<Rightarrow> string \<Rightarrow> CollisionHandler option" where
  "getHandler cm groupA groupB =
     (case handlers cm groupA of
        None \<Rightarrow> None
      | Some hs \<Rightarrow> hs groupB)"

definition getComponents ::
  "'f ECSManager \<Rightarrow> Entity \<Rightarrow> ('f ColliderComponent \<times> 'f PositionComponent \<times> 'f SizeComponent) option" where
  "getComponents em e =
     (let cRaw = GetComponent em e ''collider'' in
      if cRaw = NilValue then None
      else (case asCollider cRaw of
              None \<Rightarrow> None
            | Some c \<Rightarrow>
                (case (asPosition (GetComponent em e ''position''),
                       asSize (GetComponent em e ''size'')) of
                   (Some p, Some s) \<Rightarrow> Some (c, p, s)
                 | _ \<Rightarrow> None)))"

definition rectOverlap :: "'f::{plus,ord} \<Rightarrow> 'f \<Rightarrow> 'f \<Rightarrow> 'f \<Rightarrow> 'f \<Rightarrow> 'f \<Rightarrow> 'f \<Rightarrow> 'f \<Rightarrow> bool" where
  "rectOverlap x1 y1 w1 h1 x2 y2 w2 h2 \<longleftrightarrow>
     x1 < x2 + w2 \<and> x1 + w1 > x2 \<and> y1 < y2 + h2 \<and> y1 + h1 > y2"

definition checkCollision ::
  "'f::{minus,inverse,numeral,ord} PositionComponent \<Rightarrow> 'f ColliderComponent
     \<Rightarrow> 'f PositionComponent \<Rightarrow> 'f ColliderComponent \<Rightarrow> bool" where
  "checkCollision p1 c1 p2 c2 =
     (if CrossShape c1 then
        (let hx1 = PosX p1 + OffsetX c1 - HorizWidth c1 / 2;
             hy1 = PosY p1 + OffsetY c1 - HorizHeight c1 / 2;
             hw1 = HorizWidth c1; hh1 = HorizHeight c1;
             vx1 = PosX p1 + OffsetX c1 - VertWidth c1 / 2;
             vy1 = PosY p1 + OffsetY c1 - VertHeight c1 / 2;
             vw1 = VertWidth c1; vh1 = VertHeight c1
         in if rectOverlap hx1 hy1 hw1 hh1
                 (PosX p2 + OffsetX c2) (PosY p2 + OffsetY c2) (Width c2) (Height c2)
               \<or> rectOverlap vx1 vy1 vw1 vh1
                 (PosX p2 + OffsetX c2) (PosY p2 + OffsetY c2) (Width c2) (Height c2)
            then True else False)
      else
        (let x1 = PosX p1 + OffsetX c1; y1 = PosY p1 + OffsetY c1;
             w1 = Width c1; h1 = Height c1
         in if CrossShape c2 then
              (let hx2 = PosX p2 + OffsetX c2 - HorizWidth c2 / 2;
                   hy2 = PosY p2 + OffsetY c2 - HorizHeight c2 / 2;
                   hw2 = HorizWidth c2; hh2 = HorizHeight c2;
                   vx2 = PosX p2 + OffsetX c2 - VertWidth c2 / 2;
                   vy2 = PosY p2 + OffsetY c2 - VertHeight c2 / 2;
                   vw2 = VertWidth c2; vh2 = VertHeight c2
               in if rectOverlap hx2 hy2 hw2 hh2
                       (PosX p1 + OffsetX c1) (PosY p1 + OffsetY c1) (Width c1) (Height c1)
                     \<or> rectOverlap vx2 vy2 vw2 vh2
                       (PosX p1 + OffsetX c1) (PosY p1 + OffsetY c1) (Width c1) (Height c1)
                  then True else False)
            else
              (let x2 = PosX p2 + OffsetX c2; y2 = PosY p2 + OffsetY c2;
                   w2 = Width c2; h2 = Height c2
               in rectOverlap x1 y1 w1 h1 x2 y2 w2 h2)))"

subsection \<open>Collision keys\<close>

text \<open>
  \<^verbatim>\<open>fmt.Sprintf("%d-%d", e1, e2)\<close>: the two identifiers in decimal, without padding,
  joined by a minus sign.
\<close>

definition digitChar :: "nat \<Rightarrow> char" where
  "digitChar d = ''0123456789'' ! d"

fun showDecimal :: "nat \<Rightarrow> string" where
  "showDecimal n = (if n < 10 then [digitChar n] else showDecimal (n div 10) @ [digitChar (n mod 10)])"

declare showDecimal.simps [simp del]

definition collisionKey :: "Entity \<Rightarrow> Entity \<Rightarrow> string" where
  "collisionKey e1 e2 = showDecimal (unat e1) @ ''-'' @ showDecimal (unat e2)"

text \<open>
  \<^verbatim>\<open>fmt.Sscanf(key, "%d-%d", &e1, &e2)\<close> with the error ignored: a variable keeps its
  zero value from the first item that does not scan. An item scans when the text starts
  with decimal digits whose value fits 32 bits. This is what \<^verbatim>\<open>Sscanf\<close> does on the
  keys \<^verbatim>\<open>collisionKey\<close> writes, the only ones the engine stores.
\<close>

definition isDigit :: "char \<Rightarrow> bool" where
  "isDigit c \<longleftrightarrow> 48 \<le> (of_char c :: nat) \<and> (of_char c :: nat) \<le> 57"

definition digitValue :: "char \<Rightarrow> nat" where
  "digitValue c = of_char c - 48"

definition scanUint32 :: "string \<Rightarrow> (Entity \<times> string) option" where
  "scanUint32 s =
     (let ds = takeWhile isDigit s;
          n = foldl (\<lambda>a c. 10 * a + digitValue c) 0 ds
      in if ds = [] \<or> n \<ge> 2 ^ 32 then None
         else Some (word_of_nat n, dropWhile isDigit s))"

definition parseCollisionKey :: "string \<Rightarrow> Entity \<times> Entity" where
  "parseCollisionKey key =
     (case scanUint32 key of
        None \<Rightarrow> (0, 0)
      | Some (e1, rest) \<Rightarrow>
          (case rest of
             [] \<Rightarrow> (e1, 0)
           | c # rest' \<Rightarrow>
               if c = CHR ''-'' then
                 (case scanUint32 rest' of
                    None \<Rightarrow> (e1, 0)
                  | Some (e2, _) \<Rightarrow> (e1, e2))
               else (e1, 0)))"

subsection \<open>One tick\<close>

text \<open>
  The three maps \<^verbatim>\<open>Update\<close> works on (\<^verbatim>\<open>processed\<close> and \<^verbatim>\<open>currentCollisions\<close> are
  local to the call, \<^verbatim>\<open>previousCollisions\<close> is the manager's) and the trace.
\<close>

record tick =
  processed :: "(string, bool) syncMap"
  currentCollisions :: "(string, bool) syncMap"
  tracked :: "(string, bool) syncMap"
  trace :: "event list"

definition checkPair ::
  "'f::{minus,inverse,numeral,ord} ECSManager \<Rightarrow> CollisionManager \<Rightarrow> Entity
     \<Rightarrow> 'f ColliderComponent \<Rightarrow> 'f PositionComponent \<Rightarrow> tick \<Rightarrow> Entity \<Rightarrow> tick" where
  "checkPair em cm e1 c1 p1 st e2 =
     (if e1 = e2 then st
      else (case getComponents em e2 of
              None \<Rightarrow> st
            | Some (c2, p2, s2) \<Rightarrow>
                (case getHandler cm (Group c1) (Group c2) of
                   None \<Rightarrow> st
                 | Some handler \<Rightarrow>
                     (let key = collisionKey e1 e2 in
                      if map_of (processed st) key \<noteq> None then st
                      else
                        (let st1 = st\<lparr>processed := AList.update key True (processed st)\<rparr> in
                         if checkCollision p1 c1 p2 c2 then
                           (let st2 = st1\<lparr>currentCollisions :=
                                             AList.update key True (currentCollisions st1),
                                           trace := trace st1 @ [(e1, e2, Tested True)]\<rparr>
                            in if map_of (tracked st2) key = None then
                                 (let st3 = (if Enter handler
                                             then st2\<lparr>trace := trace st2 @ [(e1, e2, Called OnEnter)]\<rparr>
                                             else st2)
                                  in st3\<lparr>tracked := AList.update key True (tracked st3)\<rparr>)
                               else
                                 (if Stay handler
                                  then st2\<lparr>trace := trace st2 @ [(e1, e2, Called OnStay)]\<rparr>
                                  else st2))
                         else st1\<lparr>trace := trace st1 @ [(e1, e2, Tested False)]\<rparr>)))))"

definition checkEntity ::
  "'f::{minus,inverse,numeral,ord} ECSManager \<Rightarrow> CollisionManager \<Rightarrow> Entity list
     \<Rightarrow> tick \<Rightarrow> Entity \<Rightarrow> tick" where
  "checkEntity em cm ents st e1 =
     (case getComponents em e1 of
        None \<Rightarrow> st
      | Some (c1, p1, s1) \<Rightarrow> foldl (checkPair em cm e1 c1 p1) st ents)"

definition leaveStep ::
  "'f ECSManager \<Rightarrow> CollisionManager \<Rightarrow> tick \<Rightarrow> string \<Rightarrow> tick" where
  "leaveStep em cm st k =
     (if map_of (currentCollisions st) k \<noteq> None then st
      else (case parseCollisionKey k of (e1, e2) \<Rightarrow>
              (case (getComponents em e1, getComponents em e2) of
                 (Some (c1, _, _), Some (c2, _, _)) \<Rightarrow>
                   (let st1 = (case getHandler cm (Group c1) (Group c2) of
                                 None \<Rightarrow> st
                               | Some handler \<Rightarrow>
                                   if Leave handler
                                   then st\<lparr>trace := trace st @ [(e1, e2, Called OnLeave)]\<rparr>
                                   else st)
                    in st1\<lparr>tracked := AList.delete k (tracked st1)\<rparr>)
               | _ \<Rightarrow> st\<lparr>tracked := AList.delete k (tracked st)\<rparr>)))"

text \<open>
  \<^verbatim>\<open>CollisionManager.Update\<close>. The result is the manager with its
  \<^verbatim>\<open>previousCollisions\<close> after the tick, and the trace of the tick.
\<close>

definition CollisionManager_Update ::
  "CollisionManager \<Rightarrow> 'f::{minus,inverse,numeral,ord} ECSManager \<Rightarrow> CollisionManager \<times> event list" where
  "CollisionManager_Update cm em =
     (let ents = GetEntitiesWithComponents em [''collider'', ''position'', ''size''];
          st0 = \<lparr>processed = [], currentCollisions = [],
                 tracked = previousCollisions cm, trace = []\<rparr>;
          st1 = foldl (checkEntity em cm ents) st0 ents;
          st2 = foldl (leaveStep em cm) st1 (map fst (tracked st1))
      in (cm\<lparr>previousCollisions := tracked st2\<rparr>, trace st2))"

subsection \<open>What a tick does for one ordered pair\<close>

text \<open>
  The part of a trace that concerns the ordered pair \<open>(a, b)\<close>, in order.
\<close>

definition pairTrace :: "Entity \<Rightarrow> Entity \<Rightarrow> event list \<Rightarrow> action list" where
  "pairTrace a b tr = map (\<lambda>(x, y, act). act) (filter (\<lambda>(x, y, act). x = a \<and> y = b) tr)"


text \<open>
  A key is well formed when it is what \<^verbatim>\<open>collisionKey\<close> writes for the pair it parses
  to. The keys of \<^verbatim>\<open>previousCollisions\<close> are well formed and occur once: the map starts
  empty and \<^verbatim>\<open>Update\<close> stores no other keys.
\<close>

definition wellFormedKey :: "string \<Rightarrow> bool" where
  "wellFormedKey k \<longleftrightarrow> (case parseCollisionKey k of (x, y) \<Rightarrow> collisionKey x y = k)"

definition keysOK :: "(string, bool) syncMap \<Rightarrow> bool" where
  "keysOK m \<longleftrightarrow> distinct (map fst m) \<and> list_all wellFormedKey (map fst m)"

text \<open>
  The pair as one tick sees it: both entities are in the query result, they are
  different, their three components have the right types, and a handler is registered
  for their groups in this order. The value is that handler and the result of the
  overlap test.
\<close>

definition pairStatus ::
  "CollisionManager \<Rightarrow> 'f::{minus,inverse,numeral,ord} ECSManager \<Rightarrow> Entity \<Rightarrow> Entity
     \<Rightarrow> (CollisionHandler \<times> bool) option" where
  "pairStatus cm em a b =
     (let ents = GetEntitiesWithComponents em [''collider'', ''position'', ''size''] in
      if a \<noteq> b \<and> a \<in> set ents \<and> b \<in> set ents then
        (case (getComponents em a, getComponents em b) of
           (Some (c1, p1, s1), Some (c2, p2, s2)) \<Rightarrow>
             (case getHandler cm (Group c1) (Group c2) of
                None \<Rightarrow> None
              | Some h \<Rightarrow> Some (h, checkCollision p1 c1 p2 c2))
         | _ \<Rightarrow> None)
      else None)"

text \<open>
  Consecutive ticks: \<^verbatim>\<open>Loop.Update\<close> calls \<^verbatim>\<open>Mcolliders.Update()\<close> once per frame, each
  time on the registry as it then is. The result is the manager after the last tick and
  the trace of every tick.
\<close>

fun runTicks ::
  "CollisionManager \<Rightarrow> 'f::{minus,inverse,numeral,ord} ECSManager list
     \<Rightarrow> CollisionManager \<times> event list list" where
  "runTicks cm [] = (cm, [])"
| "runTicks cm (em # ems) =
     (let r = CollisionManager_Update cm em;
          rs = runTicks (fst r) ems
      in (fst rs, snd r # snd rs))"

text \<open>
  For the proofs: what the loops of a tick know about the pair \<open>(a, b)\<close> (whether its
  key is in \<^verbatim>\<open>processed\<close>, in \<^verbatim>\<open>currentCollisions\<close>, in \<^verbatim>\<open>previousCollisions\<close>, and
  its part of the trace), and the effect on it of the one iteration of each loop that
  concerns the pair.
\<close>

type_synonym pairView = "bool \<times> bool \<times> bool \<times> action list"

definition pairView :: "Entity \<Rightarrow> Entity \<Rightarrow> tick \<Rightarrow> pairView" where
  "pairView a b st =
     (map_of (processed st) (collisionKey a b) \<noteq> None,
      map_of (currentCollisions st) (collisionKey a b) \<noteq> None,
      map_of (tracked st) (collisionKey a b) \<noteq> None,
      pairTrace a b (trace st))"

definition evalPair :: "CollisionHandler \<Rightarrow> bool \<Rightarrow> pairView \<Rightarrow> pairView" where
  "evalPair h ov v =
     (case v of (pr, cu, tk, tr) \<Rightarrow>
        if pr then v
        else if ov then
          (True, True, True,
           tr @ [Tested True] @
             (if tk then (if Stay h then [Called OnStay] else [])
              else (if Enter h then [Called OnEnter] else [])))
        else (True, cu, tk, tr @ [Tested False]))"

definition evalWith ::
  "'f::{minus,inverse,numeral,ord} ECSManager \<Rightarrow> CollisionManager
     \<Rightarrow> 'f ColliderComponent \<Rightarrow> 'f PositionComponent \<Rightarrow> Entity \<Rightarrow> Entity
     \<Rightarrow> pairView \<Rightarrow> pairView" where
  "evalWith em cm c1 p1 a b v =
     (if a = b then v
      else (case getComponents em b of
              None \<Rightarrow> v
            | Some (c2, p2, s2) \<Rightarrow>
                (case getHandler cm (Group c1) (Group c2) of
                   None \<Rightarrow> v
                 | Some h \<Rightarrow> evalPair h (checkCollision p1 c1 p2 c2) v)))"

definition detectPair ::
  "'f::{minus,inverse,numeral,ord} ECSManager \<Rightarrow> CollisionManager \<Rightarrow> Entity \<Rightarrow> Entity
     \<Rightarrow> pairView \<Rightarrow> pairView" where
  "detectPair em cm a b v =
     (case getComponents em a of
        None \<Rightarrow> v
      | Some (c1, p1, s1) \<Rightarrow>
          if a = b then v
          else (case getComponents em b of
                  None \<Rightarrow> v
                | Some (c2, p2, s2) \<Rightarrow>
                    (case getHandler cm (Group c1) (Group c2) of
                       None \<Rightarrow> v
                     | Some h \<Rightarrow> evalPair h (checkCollision p1 c1 p2 c2) v)))"

definition leavePair ::
  "'f ECSManager \<Rightarrow> CollisionManager \<Rightarrow> Entity \<Rightarrow> Entity \<Rightarrow> pairView \<Rightarrow> pairView" where
  "leavePair em cm a b v =
     (case v of (pr, cu, tk, tr) \<Rightarrow>
        if cu then v
        else (pr, cu, False,
              tr @ (case (getComponents em a, getComponents em b) of
                      (Some (c1, _, _), Some (c2, _, _)) \<Rightarrow>
                        (case getHandler cm (Group c1) (Group c2) of
                           None \<Rightarrow> []
                         | Some h \<Rightarrow> if Leave h then [Called OnLeave] else [])
                    | _ \<Rightarrow> [])))"

definition tickView ::
  "'f::{minus,inverse,numeral,ord} ECSManager \<Rightarrow> CollisionManager \<Rightarrow> Entity \<Rightarrow> Entity \<Rightarrow> pairView" where
  "tickView em cm a b =
     (let ents = GetEntitiesWithComponents em [''collider'', ''position'', ''size''];
          v0 = (False, False, map_of (previousCollisions cm) (collisionKey a b) \<noteq> None, []);
          v1 = (if a \<in> set ents \<and> b \<in> set ents then detectPair em cm a b v0 else v0)
      in (case v1 of (pr, cu, tk, tr) \<Rightarrow> if tk then leavePair em cm a b v1 else v1))"


section \<open>Scenes\<close>

text \<open>
  Registries used as concrete inputs, written out as the values the entity operations
  build. In the first three entity 1 moves and the other entities are solid obstacles
  of the kind \<^verbatim>\<open>AddCollider\<close> creates.
\<close>

definition box10 :: "real SizeComponent" where
  "box10 = \<lparr>SizeWidth = 10, SizeHeight = 10, TopOffset = 0, BottomOffset = 0,
            LeftOffset = 0, RightOffset = 0\<rparr>"

text \<open>A at (0,0) with velocity (200,50); solid B at (10,0); both 10 by 10.\<close>

definition touchingScene :: "real ECSManager" where
  "touchingScene =
     \<lparr>lastEntityID = 2,
      entities = [(1, True), (2, True)],
      indentToEntity = [],
      components =
        [(1, [(''position'', PositionPtr \<lparr>PosX = 0, PosY = 0\<rparr>),
              (''velocity'', VelocityPtr \<lparr>VelX = 200, VelY = 50\<rparr>),
              (''size'', SizePtr box10)]),
         (2, [(''position'', PositionPtr \<lparr>PosX = 10, PosY = 0\<rparr>),
              (''size'', SizePtr box10),
              (''solid'', BoolValue True)])]\<rparr>"

text \<open>The same with velocity (150,50): the candidate x is 15, inside B.\<close>

definition slidingScene :: "real ECSManager" where
  "slidingScene =
     \<lparr>lastEntityID = 2,
      entities = [(1, True), (2, True)],
      indentToEntity = [],
      components =
        [(1, [(''position'', PositionPtr \<lparr>PosX = 0, PosY = 0\<rparr>),
              (''velocity'', VelocityPtr \<lparr>VelX = 150, VelY = 50\<rparr>),
              (''size'', SizePtr box10)]),
         (2, [(''position'', PositionPtr \<lparr>PosX = 10, PosY = 0\<rparr>),
              (''size'', SizePtr box10),
              (''solid'', BoolValue True)])]\<rparr>"

text \<open>
  A excludes \<^verbatim>\<open>"ghost"\<close>. Solid B at (10,0), in A's horizontal path, carries a
  component named \<^verbatim>\<open>"ghost"\<close>; solid C at (0,12), in A's vertical path, does not.
\<close>

definition ghostScene :: "real ECSManager" where
  "ghostScene =
     \<lparr>lastEntityID = 3,
      entities = [(1, True), (2, True), (3, True)],
      indentToEntity = [],
      components =
        [(1, [(''position'', PositionPtr \<lparr>PosX = 0, PosY = 0\<rparr>),
              (''velocity'', VelocityPtr \<lparr>VelX = 150, VelY = 50\<rparr>),
              (''size'', SizePtr box10),
              (''solidexclude'', StringValue ''ghost'')]),
         (2, [(''position'', PositionPtr \<lparr>PosX = 10, PosY = 0\<rparr>),
              (''size'', SizePtr box10),
              (''solid'', BoolValue True),
              (''ghost'', BoolValue True)]),
         (3, [(''position'', PositionPtr \<lparr>PosX = 0, PosY = 12\<rparr>),
              (''size'', SizePtr box10),
              (''solid'', BoolValue True)])]\<rparr>"

text \<open>
  Two cross-shaped colliders: each has a horizontal bar 10 by 2 and a vertical bar 2 by
  10 around its position; the plain rectangle of the second is 4 by 4.
\<close>

definition crossA :: "real ColliderComponent" where
  "crossA = \<lparr>Group = ''player'', CrossShape = True, OffsetX = 0, OffsetY = 0,
             Width = 0, Height = 0, HorizWidth = 10, HorizHeight = 2,
             VertWidth = 2, VertHeight = 10\<rparr>"

definition crossB :: "real ColliderComponent" where
  "crossB = \<lparr>Group = ''enemy'', CrossShape = True, OffsetX = 0, OffsetY = 0,
             Width = 4, Height = 4, HorizWidth = 10, HorizHeight = 2,
             VertWidth = 2, VertHeight = 10\<rparr>"

text \<open>
  Two colliders, 10 by 10, of groups \<^verbatim>\<open>"a"\<close> (entity 1, at the origin) and \<^verbatim>\<open>"b"\<close>
  (entity 2): overlapping when entity 2 is at (5,5), apart when it is at (50,50).
\<close>

definition plainCollider :: "string \<Rightarrow> real ColliderComponent" where
  "plainCollider g = \<lparr>Group = g, CrossShape = False, OffsetX = 0, OffsetY = 0,
                      Width = 10, Height = 10, HorizWidth = 0, HorizHeight = 0,
                      VertWidth = 0, VertHeight = 0\<rparr>"

definition twoColliders :: "real \<Rightarrow> real \<Rightarrow> real ECSManager" where
  "twoColliders x y =
     \<lparr>lastEntityID = 2,
      entities = [(1, True), (2, True)],
      indentToEntity = [],
      components =
        [(1, [(''collider'', ColliderPtr (plainCollider ''a'')),
              (''position'', PositionPtr \<lparr>PosX = 0, PosY = 0\<rparr>),
              (''size'', SizePtr box10)]),
         (2, [(''collider'', ColliderPtr (plainCollider ''b'')),
              (''position'', PositionPtr \<lparr>PosX = x, PosY = y\<rparr>),
              (''size'', SizePtr box10)])]\<rparr>"

definition allCallbacks :: CollisionHandler where
  "allCallbacks = \<lparr>Enter = True, Stay = True, Leave = True\<rparr>"

text \<open>A handler for \<^verbatim>\<open>("a", "b")\<close> only, and handlers for both orders.\<close>

definition oneWay :: CollisionManager where
  "oneWay = AddResolve ''a'' ''b'' allCallbacks NewCollisionManager"


section \<open>Serialization: failures\<close>

text \<open>
  C10. \<^verbatim>\<open>EncodeEntity\<close> panics, rather than returning an error, whenever the entity has
  no component store: in particular in a fresh registry and after \<^verbatim>\<open>RemoveEntity\<close>.
  It returns (bytes or an error) only for an entity whose store exists.
\<close>

theorem EncodeEntity_panics_without_store:
  "(map_of (components em) e = None \<longrightarrow> EncodeEntity gobEncode em e = Panics)
   \<and> EncodeEntity gobEncode (NewECSManager :: 'f ECSManager) e' = Panics
   \<and> EncodeEntity gobEncode (RemoveEntity e em) e = Panics
   \<and> (EncodeEntity gobEncode em e = Returns r \<longrightarrow> map_of (components em) e \<noteq> None)"
proof -
  have gone: "map_of (components (RemoveEntity e em)) e = None"
    by (simp add: RemoveEntity_def delete_conv')
  show ?thesis
    using gone
    by (auto simp: EncodeEntity_def NewECSManager_def split: option.splits)
qed

theorem EncodeEntity_panics_without_store_witness:
  "map_of (components (NewECSManager :: real ECSManager)) 1 = None
   \<and> EncodeEntity (\<lambda>_. Inr []) (NewECSManager :: real ECSManager) 1 = Panics
   \<and> EncodeEntity (\<lambda>_. Inr []) (fst (AddEntity [] (NewECSManager :: real ECSManager))) 1
       = Returns (Inr [])
   \<and> map_of (components (fst (AddEntity [] (NewECSManager :: real ECSManager)))) 1 \<noteq> None"
  using EncodeEntity_panics_without_store
          [of "NewECSManager :: real ECSManager" 1 "\<lambda>_. Inr []" 1 "Inr []"]
        EncodeEntity_panics_without_store
          [of "fst (AddEntity [] (NewECSManager :: real ECSManager))" 1 "\<lambda>_. Inr []" 1 "Inr []"]
  by (simp add: NewECSManager_def AddEntity_def EncodeEntity_def copyToMap_def)

text \<open>
  C8. When the bytes do not decode, \<^verbatim>\<open>Decode\<close> and \<^verbatim>\<open>DecodeEntity\<close> return the
  decoder's error and the registry is the one they were given: no entity, component or
  stable identifier has been applied.
\<close>

theorem decode_failure_leaves_registry_unchanged:
  "(gobDecode data = Inl err \<longrightarrow> Decode gobDecode data em = (em, Some err))
   \<and> (gobDecodeEntity data = Inl err' \<longrightarrow>
        DecodeEntity gobDecodeEntity data em = Returns (em, 0, Some err'))"
  by (simp add: Decode_def DecodeEntity_def)

theorem decode_failure_leaves_registry_unchanged_witness:
  "(\<lambda>_. Inl ''unexpected EOF'' :: gobError + real SerializableECSManager) [0x2A] = Inl ''unexpected EOF''
   \<and> Decode (\<lambda>_. Inl ''unexpected EOF'') [0x2A] (fst (AddEntity [''player''] (NewECSManager :: real ECSManager)))
       = (fst (AddEntity [''player''] NewECSManager), Some ''unexpected EOF'')
   \<and> DecodeEntity (\<lambda>_. Inl ''unexpected EOF'') [0x2A] (fst (AddEntity [''player''] (NewECSManager :: real ECSManager)))
       = Returns (fst (AddEntity [''player''] NewECSManager), 0, Some ''unexpected EOF'')"
  using decode_failure_leaves_registry_unchanged
          [of "\<lambda>_. Inl ''unexpected EOF''" "[0x2A]" "''unexpected EOF''"
              "fst (AddEntity [''player''] (NewECSManager :: real ECSManager))"
              "\<lambda>_. Inl ''unexpected EOF''" "''unexpected EOF''"]
  by simp

text \<open>
  C1. A registry that holds a stable identifier cannot be encoded at all: the keys of
  \<^verbatim>\<open>indentToEntity\<close> are the strings \<^verbatim>\<open>AddEntity\<close> stored, and \<^verbatim>\<open>ToSerializable\<close>
  asserts them to be \<^verbatim>\<open>uint32\<close>. Whatever the encoder, \<^verbatim>\<open>Encode\<close> panics after
  \<^verbatim>\<open>AddEntity("player")\<close> on a fresh registry.
\<close>

theorem Encode_panics_with_stable_identifier:
  "Encode gobEncode (fst (AddEntity [''player''] (NewECSManager :: 'f ECSManager))) = Panics"
  by (simp add: Encode_def ToSerializable_def AddEntity_def NewECSManager_def)

section \<open>Physics: the result of one task\<close>

lemma containsEntity_set: "containsEntity es x \<longleftrightarrow> x \<in> set es"
  by (induction es) auto

lemma resolveObstacle_step:
  "resolveObstacle em e hx ex pos size1 (x, y, v) other =
      (if hitsX em e hx ex pos size1 x other then PosX pos else x,
       if hitsY em e hx ex pos size1 y other then PosY pos else y,
       \<lparr>VelX = (if hitsX em e hx ex pos size1 x other then 0 else VelX v),
        VelY = (if hitsY em e hx ex pos size1 y other then 0 else VelY v)\<rparr>)"
  by (cases v)
     (simp add: resolveObstacle_def collidesWith_def hitsX_def hitsY_def Let_def
           split: option.splits)

text \<open>
  The loop over the solid entities, in closed form. An axis is reset as soon as one
  obstacle overlaps the candidate on that axis, and stays reset; the two axes do not
  influence each other, and the order of the obstacles does not matter.
\<close>

lemma resolve_fold:
  "foldl (resolveObstacle em e hx ex pos size1) (x, y, v) os =
      (if (\<exists>ob \<in> set os. hitsX em e hx ex pos size1 x ob) then PosX pos else x,
       if (\<exists>ob \<in> set os. hitsY em e hx ex pos size1 y ob) then PosY pos else y,
       \<lparr>VelX = (if (\<exists>ob \<in> set os. hitsX em e hx ex pos size1 x ob) then 0 else VelX v),
        VelY = (if (\<exists>ob \<in> set os. hitsY em e hx ex pos size1 y ob) then 0 else VelY v)\<rparr>)"
proof (induction os arbitrary: x y v)
  case Nil
  show ?case by (cases v) simp
next
  case (Cons ob os)
  show ?case
  proof (cases "hitsX em e hx ex pos size1 x ob")
    case inX: True
    show ?thesis
    proof (cases "hitsY em e hx ex pos size1 y ob")
      case True
      with inX show ?thesis by (simp add: resolveObstacle_step Cons.IH)
    next
      case False
      with inX show ?thesis by (simp add: resolveObstacle_step Cons.IH)
    qed
  next
    case outX: False
    show ?thesis
    proof (cases "hitsY em e hx ex pos size1 y ob")
      case True
      with outX show ?thesis by (simp add: resolveObstacle_step Cons.IH)
    next
      case False
      with outX show ?thesis by (simp add: resolveObstacle_step Cons.IH)
    qed
  qed
qed

lemma store_exists:
  "GetComponent em e name \<noteq> NilValue \<Longrightarrow> \<exists>cm. map_of (components em) e = Some cm"
  by (auto simp: GetComponent_def split: option.splits)

lemma GetComponent_assignThrough:
  "GetComponent (assignThrough e name cv em) e' name' =
     (if e' = e \<and> name' = name \<and> map_of (components em) e \<noteq> None then cv
      else GetComponent em e' name')"
  by (auto simp: GetComponent_def assignThrough_def update_conv' split: option.splits)

lemma store_assignThrough:
  "map_of (components (assignThrough e name cv em)) e' = None
     \<longleftrightarrow> map_of (components em) e' = None"
  by (auto simp: assignThrough_def update_conv' split: option.splits)

lemma processEntity_unfold:
  fixes em :: "'f::{zero,plus,minus,times,ord} ECSManager"
  assumes "asPosition (GetComponent em e ''position'') = Some pos"
    and "asVelocity (GetComponent em e ''velocity'') = Some vel"
    and "asSize (GetComponent em e ''size'') = Some size1"
  shows "processEntity gravity em e dt =
     (case foldl (resolveObstacle em e (asString (GetComponent em e ''solidexclude'') \<noteq> None)
                    (excludeEntitiesOf em e) pos size1)
                 (PosX pos + VelX vel * dt, PosY pos + (VelY vel + gravity * dt) * dt,
                  vel\<lparr>VelY := VelY vel + gravity * dt\<rparr>) (solidEntitiesOf em) of
        (newX, newY, v) \<Rightarrow>
          assignThrough e ''position'' (PositionPtr (pos\<lparr>PosX := newX, PosY := newY\<rparr>))
            (assignThrough e ''velocity'' (VelocityPtr v) em))"
  using assms
  by (simp add: processEntity_def Let_def solidEntitiesOf_def excludeEntitiesOf_def)

lemma processEntity_result:
  fixes em :: "'f::{zero,plus,minus,times,ord} ECSManager"
  assumes P: "asPosition (GetComponent em e ''position'') = Some pos"
    and V: "asVelocity (GetComponent em e ''velocity'') = Some vel"
    and S: "asSize (GetComponent em e ''size'') = Some size1"
  shows "GetComponent (processEntity gravity em e dt) e ''position'' =
           PositionPtr
             \<lparr>PosX = (if \<exists>ob \<in> set (obstaclesOf em e).
                            collidesWith em (PosX pos + VelX vel * dt) (PosY pos) size1 ob
                      then PosX pos else PosX pos + VelX vel * dt),
              PosY = (if \<exists>ob \<in> set (obstaclesOf em e).
                            collidesWith em (PosX pos) (PosY pos + (VelY vel + gravity * dt) * dt) size1 ob
                      then PosY pos else PosY pos + (VelY vel + gravity * dt) * dt)\<rparr>
         \<and> GetComponent (processEntity gravity em e dt) e ''velocity'' =
           VelocityPtr
             \<lparr>VelX = (if \<exists>ob \<in> set (obstaclesOf em e).
                            collidesWith em (PosX pos + VelX vel * dt) (PosY pos) size1 ob
                      then 0 else VelX vel),
              VelY = (if \<exists>ob \<in> set (obstaclesOf em e).
                            collidesWith em (PosX pos) (PosY pos + (VelY vel + gravity * dt) * dt) size1 ob
                      then 0 else VelY vel + gravity * dt)\<rparr>"
proof -
  from P have "GetComponent em e ''position'' \<noteq> NilValue" by auto
  then obtain cm where cm: "map_of (components em) e = Some cm"
    using store_exists by blast
  have ex: "(\<exists>ob \<in> set (solidEntitiesOf em).
               hitsX em e (asString (GetComponent em e ''solidexclude'') \<noteq> None)
                     (excludeEntitiesOf em e) pos size1 x ob)
            \<longleftrightarrow> (\<exists>ob \<in> set (obstaclesOf em e). collidesWith em x (PosY pos) size1 ob)" for x
    by (auto simp: obstaclesOf_def hitsX_def)
  have ey: "(\<exists>ob \<in> set (solidEntitiesOf em).
               hitsY em e (asString (GetComponent em e ''solidexclude'') \<noteq> None)
                     (excludeEntitiesOf em e) pos size1 y ob)
            \<longleftrightarrow> (\<exists>ob \<in> set (obstaclesOf em e). collidesWith em (PosX pos) y size1 ob)" for y
    by (auto simp: obstaclesOf_def hitsY_def)
  show ?thesis
    unfolding processEntity_unfold [OF P V S] resolve_fold ex ey
    by (simp add: GetComponent_assignThrough store_assignThrough cm)
qed

text \<open>
  C7. When some obstacle overlaps the candidate at \<open>(newX, y)\<close> and none overlaps the
  candidate at \<open>(x, newY)\<close>, the tick leaves \<open>x\<close> as it was, sets the horizontal velocity
  to 0 and moves \<open>y\<close> by the vertical velocity, gravity of this tick included, times
  \<open>dt\<close>. The obstacles are the solid entities the loop does not skip.
\<close>

theorem axis_separated_resolution:
  fixes em :: "'f::{zero,plus,minus,times,ord} ECSManager"
  assumes "asPosition (GetComponent em e ''position'') = Some pos"
    and "asVelocity (GetComponent em e ''velocity'') = Some vel"
    and "asSize (GetComponent em e ''size'') = Some size1"
    and "\<exists>ob \<in> set (obstaclesOf em e).
           collidesWith em (PosX pos + VelX vel * dt) (PosY pos) size1 ob"
    and "\<forall>ob \<in> set (obstaclesOf em e).
           \<not> collidesWith em (PosX pos) (PosY pos + (VelY vel + gravity * dt) * dt) size1 ob"
  shows "GetComponent (processEntity gravity em e dt) e ''position'' =
           PositionPtr \<lparr>PosX = PosX pos, PosY = PosY pos + (VelY vel + gravity * dt) * dt\<rparr>
         \<and> GetComponent (processEntity gravity em e dt) e ''velocity'' =
           VelocityPtr \<lparr>VelX = 0, VelY = VelY vel + gravity * dt\<rparr>"
  using processEntity_result [OF assms(1-3), of gravity dt] assms(4,5)
  by simp

theorem axis_separated_resolution_witness:
  "GetComponent (processEntity 200 slidingScene 1 (1 / 10)) 1 ''position'' =
     PositionPtr \<lparr>PosX = 0, PosY = 7\<rparr>
   \<and> GetComponent (processEntity 200 slidingScene 1 (1 / 10)) 1 ''velocity'' =
     VelocityPtr \<lparr>VelX = 0, VelY = 70\<rparr>"
proof -
  have P: "asPosition (GetComponent slidingScene 1 ''position'') = Some \<lparr>PosX = 0, PosY = 0\<rparr>"
    by (simp add: slidingScene_def GetComponent_def)
  have V: "asVelocity (GetComponent slidingScene 1 ''velocity'') = Some \<lparr>VelX = 150, VelY = 50\<rparr>"
    by (simp add: slidingScene_def GetComponent_def)
  have S: "asSize (GetComponent slidingScene 1 ''size'') = Some box10"
    by (simp add: slidingScene_def GetComponent_def)
  have obs: "obstaclesOf slidingScene 1 = [2]"
    by (simp add: obstaclesOf_def solidEntitiesOf_def excludeEntitiesOf_def skipsObstacle_def
          GetEntitiesWithComponents_def hasAllNames_def GetComponent_def slidingScene_def)
  have B: "GetComponent slidingScene 2 ''position'' = PositionPtr \<lparr>PosX = 10, PosY = 0\<rparr>"
          "GetComponent slidingScene 2 ''size'' = SizePtr box10"
    by (simp_all add: slidingScene_def GetComponent_def)
  show ?thesis
    using axis_separated_resolution [OF P V S, where dt = "1 / 10" and gravity = 200]
    by (simp add: obs B collidesWith_def isColliding_def box10_def)
qed

lemma obstacles_with_exclusion:
  assumes "GetComponent em e ''solidexclude'' = StringValue G" and "G \<noteq> []"
  shows "set (obstaclesOf em e) =
           {ob \<in> set (solidEntitiesOf em). ob \<noteq> e \<and> \<not> HasComponent em ob G}"
proof -
  have live: "ob \<in> fst ` set (entities em)" if "ob \<in> set (solidEntitiesOf em)" for ob
    using that by (auto simp: solidEntitiesOf_def GetEntitiesWithComponents_def)
  have "ob \<in> set (GetEntitiesWithComponents em [G]) \<longleftrightarrow> HasComponent em ob G"
    if "ob \<in> set (solidEntitiesOf em)" for ob
    using live [OF that]
    by (auto simp: GetEntitiesWithComponents_def HasComponent_def hasAllNames_def
             split: option.splits)
  then show ?thesis
    using assms
    by (auto simp: obstaclesOf_def excludeEntitiesOf_def skipsObstacle_def containsEntity_set)
qed

text \<open>
  C6. For an entity whose \<^verbatim>\<open>solidexclude\<close> is the string \<open>G\<close> (\<^verbatim>\<open>"ghost"\<close> in the
  claim), the result of the tick is decided by the solid entities that do not carry a
  component named \<open>G\<close>, and by them alone: an axis is blocked exactly when one of them
  overlaps the candidate on that axis. A solid entity that carries \<open>G\<close> never blocks.
\<close>

theorem solidexclude_passes_through:
  fixes em :: "'f::{zero,plus,minus,times,ord} ECSManager"
  assumes "asPosition (GetComponent em e ''position'') = Some pos"
    and "asVelocity (GetComponent em e ''velocity'') = Some vel"
    and "asSize (GetComponent em e ''size'') = Some size1"
    and "GetComponent em e ''solidexclude'' = StringValue G" and "G \<noteq> []"
  shows "GetComponent (processEntity gravity em e dt) e ''position'' =
           PositionPtr
             \<lparr>PosX = (if \<exists>ob \<in> set (solidEntitiesOf em). ob \<noteq> e \<and> \<not> HasComponent em ob G
                            \<and> collidesWith em (PosX pos + VelX vel * dt) (PosY pos) size1 ob
                      then PosX pos else PosX pos + VelX vel * dt),
              PosY = (if \<exists>ob \<in> set (solidEntitiesOf em). ob \<noteq> e \<and> \<not> HasComponent em ob G
                            \<and> collidesWith em (PosX pos) (PosY pos + (VelY vel + gravity * dt) * dt) size1 ob
                      then PosY pos else PosY pos + (VelY vel + gravity * dt) * dt)\<rparr>
         \<and> GetComponent (processEntity gravity em e dt) e ''velocity'' =
           VelocityPtr
             \<lparr>VelX = (if \<exists>ob \<in> set (solidEntitiesOf em). ob \<noteq> e \<and> \<not> HasComponent em ob G
                            \<and> collidesWith em (PosX pos + VelX vel * dt) (PosY pos) size1 ob
                      then 0 else VelX vel),
              VelY = (if \<exists>ob \<in> set (solidEntitiesOf em). ob \<noteq> e \<and> \<not> HasComponent em ob G
                            \<and> collidesWith em (PosX pos) (PosY pos + (VelY vel + gravity * dt) * dt) size1 ob
                      then 0 else VelY vel + gravity * dt)\<rparr>"
proof -
  have "(\<exists>ob \<in> set (obstaclesOf em e). Q ob)
        \<longleftrightarrow> (\<exists>ob \<in> set (solidEntitiesOf em). ob \<noteq> e \<and> \<not> HasComponent em ob G \<and> Q ob)" for Q
    unfolding obstacles_with_exclusion [OF assms(4,5)] by auto
  then show ?thesis
    using processEntity_result [OF assms(1-3), of gravity dt] by simp
qed

theorem solidexclude_passes_through_witness:
  "GetComponent (processEntity 0 ghostScene 1 (1 / 10)) 1 ''position'' =
     PositionPtr \<lparr>PosX = 15, PosY = 0\<rparr>
   \<and> GetComponent (processEntity 0 ghostScene 1 (1 / 10)) 1 ''velocity'' =
     VelocityPtr \<lparr>VelX = 150, VelY = 0\<rparr>"
proof -
  have P: "asPosition (GetComponent ghostScene 1 ''position'') = Some \<lparr>PosX = 0, PosY = 0\<rparr>"
    by (simp add: ghostScene_def GetComponent_def)
  have V: "asVelocity (GetComponent ghostScene 1 ''velocity'') = Some \<lparr>VelX = 150, VelY = 50\<rparr>"
    by (simp add: ghostScene_def GetComponent_def)
  have S: "asSize (GetComponent ghostScene 1 ''size'') = Some box10"
    by (simp add: ghostScene_def GetComponent_def)
  have X: "GetComponent ghostScene 1 ''solidexclude'' = StringValue ''ghost''"
    by (simp add: ghostScene_def GetComponent_def)
  have G: "''ghost'' \<noteq> []"
    by simp
  have solids: "solidEntitiesOf ghostScene = [2, 3]"
    by (simp add: solidEntitiesOf_def GetEntitiesWithComponents_def hasAllNames_def ghostScene_def)
  have ghosts: "HasComponent ghostScene 2 ''ghost''" "\<not> HasComponent ghostScene 3 ''ghost''"
    by (simp_all add: HasComponent_def ghostScene_def)
  have B: "GetComponent ghostScene 2 ''position'' = PositionPtr \<lparr>PosX = 10, PosY = 0\<rparr>"
          "GetComponent ghostScene 2 ''size'' = SizePtr box10"
          "GetComponent ghostScene 3 ''position'' = PositionPtr \<lparr>PosX = 0, PosY = 12\<rparr>"
          "GetComponent ghostScene 3 ''size'' = SizePtr box10"
    by (simp_all add: ghostScene_def GetComponent_def)
  show ?thesis
    using solidexclude_passes_through [OF P V S X G, where dt = "1 / 10" and gravity = 0]
    by (simp add: solids ghosts B collidesWith_def isColliding_def box10_def)
qed

section \<open>Physics: the scenario\<close>

lemma touchingScene_built:
  "(case AddEntity [] NewECSManager of (em1, a) \<Rightarrow>
      (case AddComponents a
              [(''position'', PositionPtr \<lparr>PosX = 0, PosY = 0\<rparr>),
               (''velocity'', VelocityPtr \<lparr>VelX = 200, VelY = 50\<rparr>),
               (''size'', SizePtr box10)] em1 of
         Panics \<Rightarrow> Panics
       | Returns em2 \<Rightarrow> AddCollider 10 0 10 10 em2)) = Returns touchingScene"
  by (simp add: AddEntity_def NewECSManager_def AddComponent_def AddCollider_def
        touchingScene_def box10_def)

text \<open>
  C3, as the code runs it. With gravity 0 and \<open>dt = 1/10\<close> the candidate \<open>x\<close> of A is
  \<open>0 + 200 * (1/10) = 20\<close>: A would occupy \<open>[20, 30]\<close> and B occupies \<open>[10, 20]\<close>. The
  overlap test is strict, so the two do not overlap, the move is accepted, and A ends at
  \<open>(20, 5)\<close> with its velocity \<open>(200, 50)\<close> unchanged. (In binary64 the products
  \<open>200 * 0.1\<close> and \<open>50 * 0.1\<close> round to 20 and 5 as well.)
\<close>

theorem touching_scene_tick:
  "\<not> isColliding (0 + 200 * (1 / 10)) 0 box10 \<lparr>PosX = 10, PosY = 0\<rparr> box10
   \<and> GetComponent (PhysicsSystem_Update 0 touchingScene (1 / 10)) 1 ''position'' =
       PositionPtr \<lparr>PosX = 20, PosY = 5\<rparr>
   \<and> GetComponent (PhysicsSystem_Update 0 touchingScene (1 / 10)) 1 ''velocity'' =
       VelocityPtr \<lparr>VelX = 200, VelY = 50\<rparr>"
  by (simp add: PhysicsSystem_Update_def processEntity_def touchingScene_def box10_def
        GetEntitiesWithComponents_def hasAllNames_def GetComponent_def resolveObstacle_def
        skipsObstacle_def isColliding_def assignThrough_def)

text \<open>
  C3, as the claim states it: the candidate overlaps B, A ends at \<open>(0, 5)\<close> and its
  horizontal velocity is 0. None of this holds.
\<close>

theorem touching_scene_not_blocked:
  "\<not> isColliding 20 0 box10 \<lparr>PosX = 10, PosY = 0\<rparr> box10
   \<and> GetComponent (PhysicsSystem_Update 0 touchingScene (1 / 10)) 1 ''position'' \<noteq>
       PositionPtr \<lparr>PosX = 0, PosY = 5\<rparr>
   \<and> GetComponent (PhysicsSystem_Update 0 touchingScene (1 / 10)) 1 ''velocity'' \<noteq>
       VelocityPtr \<lparr>VelX = 0, VelY = 50\<rparr>"
  by (simp add: PhysicsSystem_Update_def processEntity_def touchingScene_def box10_def
        GetEntitiesWithComponents_def hasAllNames_def GetComponent_def resolveObstacle_def
        skipsObstacle_def isColliding_def assignThrough_def)

section \<open>Queries by component signature\<close>

lemma registry_ok_iff:
  "registry_ok em \<longleftrightarrow>
     distinct (map fst (entities em))
     \<and> (\<forall>e. e \<in> set (map fst (entities em)) \<longrightarrow> map_of (components em) e \<noteq> None)"
  by (auto simp: registry_ok_def list_all_iff)

lemma keys_update: "set (map fst (AList.update k v al)) = insert k (set (map fst al))"
  by (auto simp: update_keys)

lemma keys_delete: "set (map fst (AList.delete k al)) = set (map fst al) - {k}"
  by (simp add: delete_keys)

lemma registry_ok_New: "registry_ok NewECSManager"
  by (simp add: registry_ok_def NewECSManager_def)

lemma registry_ok_AddEntity: "registry_ok em \<Longrightarrow> registry_ok (fst (AddEntity ident em))"
  unfolding registry_ok_iff
  by (cases ident)
     (simp_all add: AddEntity_def Let_def distinct_update keys_update update_conv' del: set_map)

lemma registry_ok_RemoveEntity: "registry_ok em \<Longrightarrow> registry_ok (RemoveEntity e em)"
  unfolding registry_ok_iff
  by (simp add: RemoveEntity_def distinct_delete keys_delete delete_conv' del: set_map)

lemma registry_ok_components_update:
  assumes "registry_ok em"
  shows "registry_ok (em\<lparr>components := AList.update e cm (components em)\<rparr>)"
  using assms unfolding registry_ok_iff
  by (simp add: update_conv' del: set_map)

lemma registry_ok_AddComponent:
  "registry_ok em \<Longrightarrow> AddComponent e name cv em = Returns em' \<Longrightarrow> registry_ok em'"
  by (auto simp: AddComponent_def registry_ok_components_update split: if_splits option.splits)

lemma registry_ok_SetComponent: "registry_ok em \<Longrightarrow> registry_ok (SetComponent e name cv em)"
  by (simp add: SetComponent_def registry_ok_components_update split: option.splits)

lemma registry_ok_RemoveComponent: "registry_ok em \<Longrightarrow> registry_ok (RemoveComponent e name em)"
  by (simp add: RemoveComponent_def registry_ok_components_update split: option.splits)

lemma registry_ok_assignThrough: "registry_ok em \<Longrightarrow> registry_ok (assignThrough e name cv em)"
  by (simp add: assignThrough_def registry_ok_components_update split: option.splits)

lemma registry_ok_restoreEntity:
  "registry_ok em \<Longrightarrow> registry_ok (restoreEntity data em ea)"
  unfolding registry_ok_iff
  by (cases ea) (simp add: restoreEntity_def Let_def distinct_update keys_update update_conv' del: set_map)

lemma registry_ok_restore_all:
  "registry_ok em \<Longrightarrow> registry_ok (foldl (restoreEntity data) em eas)"
  by (induction eas arbitrary: em) (simp_all add: registry_ok_restoreEntity)

lemma registry_ok_FromSerializable:
  assumes "registry_ok em"
  shows "registry_ok (FromSerializable em data)"
proof -
  have "registry_ok (em\<lparr>lastEntityID := LastEntityID data\<rparr>)"
    using assms by (simp add: registry_ok_def)
  then have "registry_ok (foldl (restoreEntity data) (em\<lparr>lastEntityID := LastEntityID data\<rparr>)
                            (Entities data))"
    by (rule registry_ok_restore_all)
  then show ?thesis
    by (simp add: FromSerializable_def Let_def registry_ok_def)
qed

lemma registry_ok_Decode:
  "registry_ok em \<Longrightarrow> registry_ok (fst (Decode gobDecode data em))"
  by (simp add: Decode_def registry_ok_FromSerializable split: sum.splits)

lemma registry_ok_AddComponents:
  "registry_ok em \<Longrightarrow> AddComponents e comps em = Returns em' \<Longrightarrow> registry_ok em'"
proof (induction comps arbitrary: em)
  case Nil
  then show ?case by simp
next
  case (Cons nc comps)
  obtain n c where nc: "nc = (n, c)" by (cases nc)
  from Cons.prems(2) obtain em1 where
    one: "AddComponent e n c em = Returns em1" and rest: "AddComponents e comps em1 = Returns em'"
    by (auto simp: nc split: outcome.splits)
  from Cons.prems(1) one have "registry_ok em1"
    by (rule registry_ok_AddComponent)
  then show ?case
    using rest by (rule Cons.IH)
qed

lemma registry_ok_DecodeEntity:
  assumes "registry_ok em" and "DecodeEntity gobDecode data em = Returns (em', target, err)"
  shows "registry_ok em'"
proof (cases "gobDecode data")
  case (Inl e)
  with assms show ?thesis by (simp add: DecodeEntity_def)
next
  case (Inr entityData)
  define start where "start =
     (if Ident entityData \<noteq> []
      then (case GetEntityByIdent em (Ident entityData) of
              (ex, True) \<Rightarrow> (em, ex)
            | (_, False) \<Rightarrow> AddEntity [Ident entityData] em)
      else AddEntity [] em)"
  have ok: "registry_ok (fst start)"
    using assms(1) registry_ok_AddEntity [of em]
    by (auto simp: start_def split: prod.splits bool.splits)
  from assms(2) Inr have "AddComponents (snd start) (EntityComponents entityData) (fst start) = Returns em'"
    by (auto simp: DecodeEntity_def start_def [symmetric] split: prod.splits outcome.splits)
  with ok show ?thesis
    by (rule registry_ok_AddComponents)
qed

lemma registry_ok_processEntity:
  "registry_ok em \<Longrightarrow> registry_ok (processEntity gravity em e dt)"
  by (simp add: processEntity_def Let_def registry_ok_assignThrough split: option.splits prod.splits)

lemma count_list_filter_distinct:
  "distinct xs \<Longrightarrow> count_list (filter P xs) x = (if x \<in> set xs \<and> P x then 1 else 0)"
  by (induction xs) auto

text \<open>
  C9. In a registry where every live entity has its component store (which holds from
  \<^verbatim>\<open>NewECSManager\<close> on, see the lemmas above), a live entity occurs in the result of
  the query once if it holds every name asked for, and not at all otherwise.
\<close>

theorem query_correctness:
  assumes "registry_ok em" and "map_of (entities em) e \<noteq> None"
  shows "count_list (GetEntitiesWithComponents em names) e =
           (if \<forall>n \<in> set names. HasComponent em e n then 1 else 0)"
proof -
  from assms(2) have live: "e \<in> set (map fst (entities em))"
    by (metis map_of_eq_None_iff set_map)
  with assms(1) obtain cm where cm: "map_of (components em) e = Some cm"
    by (auto simp: registry_ok_def list_all_iff)
  from assms(1) have "distinct (map fst (entities em))"
    by (simp add: registry_ok_def)
  then show ?thesis
    using live cm
    by (simp add: GetEntitiesWithComponents_def count_list_filter_distinct HasComponent_def
          hasAllNames_def list_all_iff)
qed

theorem query_correctness_witness:
  "count_list (GetEntitiesWithComponents ghostScene [''solid'', ''ghost'']) 2 = 1
   \<and> count_list (GetEntitiesWithComponents ghostScene [''solid'', ''ghost'']) 3 = 0"
proof -
  have ok: "registry_ok ghostScene"
    by (simp add: registry_ok_def ghostScene_def)
  have live: "map_of (entities ghostScene) 2 \<noteq> None" "map_of (entities ghostScene) 3 \<noteq> None"
    by (simp_all add: ghostScene_def)
  show ?thesis
    using query_correctness [OF ok live(1), of "[''solid'', ''ghost'']"]
          query_correctness [OF ok live(2), of "[''solid'', ''ghost'']"]
    by (simp add: HasComponent_def ghostScene_def)
qed

section \<open>Collision engine: the overlap test\<close>

text \<open>
  C5. When the first collider is cross-shaped, \<^verbatim>\<open>checkCollision\<close> is the disjunction of
  two rectangle tests, the first entity's horizontal bar and its vertical bar, each
  against the rectangle given by the second collider's offset, width and height. Each
  test is the four strict comparisons of \<^verbatim>\<open>rectOverlap\<close>, written out here. The second
  collider's own cross flag and bars are not looked at.
\<close>

theorem cross_shape_first_collider:
  fixes pa pb :: "'f::{minus,inverse,numeral,ord} PositionComponent"
  assumes "CrossShape ca"
  shows "(checkCollision pa ca pb cb \<longleftrightarrow>
            (PosX pa + OffsetX ca - HorizWidth ca / 2 < PosX pb + OffsetX cb + Width cb
             \<and> PosX pa + OffsetX ca - HorizWidth ca / 2 + HorizWidth ca > PosX pb + OffsetX cb
             \<and> PosY pa + OffsetY ca - HorizHeight ca / 2 < PosY pb + OffsetY cb + Height cb
             \<and> PosY pa + OffsetY ca - HorizHeight ca / 2 + HorizHeight ca > PosY pb + OffsetY cb)
            \<or> (PosX pa + OffsetX ca - VertWidth ca / 2 < PosX pb + OffsetX cb + Width cb
               \<and> PosX pa + OffsetX ca - VertWidth ca / 2 + VertWidth ca > PosX pb + OffsetX cb
               \<and> PosY pa + OffsetY ca - VertHeight ca / 2 < PosY pb + OffsetY cb + Height cb
               \<and> PosY pa + OffsetY ca - VertHeight ca / 2 + VertHeight ca > PosY pb + OffsetY cb))
         \<and> checkCollision pa ca pb
              (cb\<lparr>CrossShape := xb, HorizWidth := hwb, HorizHeight := hhb,
                  VertWidth := vwb, VertHeight := vhb\<rparr>)
            = checkCollision pa ca pb cb"
  using assms by (simp add: checkCollision_def rectOverlap_def Let_def)

text \<open>
  The first cross at the origin has its horizontal bar on \<open>[-5, 5] \<times> [-1, 1]\<close> and its
  vertical bar on \<open>[-1, 1] \<times> [-5, 5]\<close>. The second collider's rectangle is 4 by 4 from
  its position. At \<open>(3, -2)\<close> it meets the horizontal bar only, at \<open>(-2, 3)\<close> the
  vertical bar only. At \<open>(3, 2)\<close> it is clear of both bars, at \<open>(5, 0)\<close> it touches the
  end of the horizontal bar, at \<open>(0, 5)\<close> and at \<open>(-2, -9)\<close> an end of the vertical bar:
  no overlap in these four.
\<close>

theorem cross_shape_first_collider_witness:
  "CrossShape crossA \<and> CrossShape crossB
   \<and> checkCollision \<lparr>PosX = 0, PosY = 0\<rparr> crossA \<lparr>PosX = 3, PosY = -2\<rparr> crossB
   \<and> checkCollision \<lparr>PosX = 0, PosY = 0\<rparr> crossA \<lparr>PosX = -2, PosY = 3\<rparr> crossB
   \<and> \<not> checkCollision \<lparr>PosX = 0, PosY = 0\<rparr> crossA \<lparr>PosX = 3, PosY = 2\<rparr> crossB
   \<and> \<not> checkCollision \<lparr>PosX = 0, PosY = 0\<rparr> crossA \<lparr>PosX = 5, PosY = 0\<rparr> crossB
   \<and> \<not> checkCollision \<lparr>PosX = 0, PosY = 0\<rparr> crossA \<lparr>PosX = 0, PosY = 5\<rparr> crossB
   \<and> \<not> checkCollision \<lparr>PosX = 0, PosY = 0\<rparr> crossA \<lparr>PosX = -2, PosY = -9\<rparr> crossB
   \<and> checkCollision \<lparr>PosX = 0, PosY = 0\<rparr> crossA \<lparr>PosX = 3, PosY = -2\<rparr>
        (crossB\<lparr>CrossShape := False, HorizWidth := 0, HorizHeight := 0,
                VertWidth := 0, VertHeight := 0\<rparr>)"
proof -
  have A: "CrossShape crossA"
    by (simp add: crossA_def)
  show ?thesis
    using cross_shape_first_collider
            [OF A, where pa = "\<lparr>PosX = 0, PosY = 0\<rparr>" and pb = "\<lparr>PosX = 3, PosY = -2\<rparr>"
               and cb = crossB and xb = False
               and hwb = 0 and hhb = 0 and vwb = 0 and vhb = 0]
          cross_shape_first_collider
            [OF A, where pa = "\<lparr>PosX = 0, PosY = 0\<rparr>" and pb = "\<lparr>PosX = -2, PosY = 3\<rparr>"
               and cb = crossB]
          cross_shape_first_collider
            [OF A, where pa = "\<lparr>PosX = 0, PosY = 0\<rparr>" and pb = "\<lparr>PosX = 3, PosY = 2\<rparr>"
               and cb = crossB]
          cross_shape_first_collider
            [OF A, where pa = "\<lparr>PosX = 0, PosY = 0\<rparr>" and pb = "\<lparr>PosX = 5, PosY = 0\<rparr>"
               and cb = crossB]
          cross_shape_first_collider
            [OF A, where pa = "\<lparr>PosX = 0, PosY = 0\<rparr>" and pb = "\<lparr>PosX = 0, PosY = 5\<rparr>"
               and cb = crossB]
          cross_shape_first_collider
            [OF A, where pa = "\<lparr>PosX = 0, PosY = 0\<rparr>" and pb = "\<lparr>PosX = -2, PosY = -9\<rparr>"
               and cb = crossB]
    by (simp add: crossA_def crossB_def)
qed

section \<open>Collision engine: keys\<close>

lemma of_char_digitChar:
  assumes "d < 10"
  shows "(of_char (digitChar d) :: nat) = 48 + d"
proof -
  from assms consider "d = 0" | "d = 1" | "d = 2" | "d = 3" | "d = 4"
    | "d = 5" | "d = 6" | "d = 7" | "d = 8" | "d = 9"
    by (auto simp: numeral_eq_Suc less_Suc_eq)
  then show ?thesis
    by cases (simp_all add: digitChar_def)
qed

lemma isDigit_digitChar: "d < 10 \<Longrightarrow> isDigit (digitChar d)"
  by (simp add: isDigit_def of_char_digitChar)

lemma digitValue_digitChar: "d < 10 \<Longrightarrow> digitValue (digitChar d) = d"
  by (simp add: digitValue_def of_char_digitChar)

lemma not_isDigit_minus: "\<not> isDigit CHR ''-''"
  by (simp add: isDigit_def)

lemma showDecimal_digits: "c \<in> set (showDecimal n) \<Longrightarrow> isDigit c"
proof (induction n rule: showDecimal.induct)
  case (1 n)
  show ?case
  proof (cases "n < 10")
    case True
    with "1.prems" show ?thesis
      by (simp add: showDecimal.simps [of n] isDigit_digitChar)
  next
    case False
    with "1.prems" "1.IH" show ?thesis
      by (auto simp: showDecimal.simps [of n] isDigit_digitChar)
  qed
qed

lemma showDecimal_nonempty: "showDecimal n \<noteq> []"
  by (subst showDecimal.simps) simp

lemma showDecimal_value: "foldl (\<lambda>a c. 10 * a + digitValue c) 0 (showDecimal n) = n"
proof (induction n rule: showDecimal.induct)
  case (1 n)
  show ?case
  proof (cases "n < 10")
    case True
    then show ?thesis
      by (simp add: showDecimal.simps [of n] digitValue_digitChar)
  next
    case False
    with "1.IH" show ?thesis
      by (simp add: showDecimal.simps [of n] digitValue_digitChar)
  qed
qed

lemma scanUint32_showDecimal:
  assumes "rest = [] \<or> \<not> isDigit (hd rest)"
  shows "scanUint32 (showDecimal (unat e) @ rest) = Some (e, rest)"
proof -
  have all: "\<forall>c \<in> set (showDecimal (unat e)). isDigit c"
    using showDecimal_digits by blast
  have tw: "takeWhile isDigit (showDecimal (unat e) @ rest) = showDecimal (unat e)"
    using assms all by (cases rest) (simp_all add: takeWhile_append2 takeWhile_eq_all_conv)
  have dw: "dropWhile isDigit (showDecimal (unat e) @ rest) = rest"
    using assms all by (cases rest) (simp_all add: dropWhile_append2 dropWhile_eq_Nil_conv)
  have small: "unat e < 2 ^ 32"
    using unsigned_less [of e] by simp
  show ?thesis
    using small
    by (simp add: scanUint32_def tw dw Let_def showDecimal_value showDecimal_nonempty)
qed

lemma parse_collisionKey: "parseCollisionKey (collisionKey a b) = (a, b)"
proof -
  have first: "scanUint32 (showDecimal (unat a) @ CHR ''-'' # showDecimal (unat b))
                 = Some (a, CHR ''-'' # showDecimal (unat b))"
    by (rule scanUint32_showDecimal) (simp add: not_isDigit_minus)
  have second: "scanUint32 (showDecimal (unat b)) = Some (b, [])"
    using scanUint32_showDecimal [of "[]" b] by simp
  show ?thesis
    by (simp add: parseCollisionKey_def collisionKey_def first second)
qed

lemma collisionKey_inject: "collisionKey a b = collisionKey c d \<longleftrightarrow> a = c \<and> b = d"
  by (metis parse_collisionKey prod.inject)

section \<open>Collision engine: the loops, seen from one ordered pair\<close>

lemma pairTrace_append [simp]: "pairTrace a b (xs @ ys) = pairTrace a b xs @ pairTrace a b ys"
  by (simp add: pairTrace_def)

lemma pairTrace_Nil [simp]: "pairTrace a b [] = []"
  by (simp add: pairTrace_def)

lemma pairTrace_Cons [simp]:
  "pairTrace a b ((x, y, act) # tr) =
     (if x = a \<and> y = b then act # pairTrace a b tr else pairTrace a b tr)"
  by (simp add: pairTrace_def)

lemma checkPair_other:
  assumes "(e1, e2) \<noteq> (a, b)"
  shows "pairView a b (checkPair em cm e1 c1 p1 st e2) = pairView a b st"
  using assms
  by (auto simp: checkPair_def pairView_def Let_def update_conv' collisionKey_inject
           split: option.splits)

lemma checkPair_self:
  assumes "a \<noteq> b" and "getComponents em b = Some (c2, p2, s2)"
    and "getHandler cm (Group c1) (Group c2) = Some h"
  shows "pairView a b (checkPair em cm a c1 p1 st b)
           = evalPair h (checkCollision p1 c1 p2 c2) (pairView a b st)"
  using assms
  by (auto simp: checkPair_def pairView_def evalPair_def Let_def update_conv')

lemma evalPair_idem: "evalPair h ov (evalPair h ov v) = evalPair h ov v"
  by (cases v) (simp add: evalPair_def)

lemma detectPair_evalWith:
  "detectPair em cm a b v =
     (case getComponents em a of None \<Rightarrow> v | Some (c1, p1, s1) \<Rightarrow> evalWith em cm c1 p1 a b v)"
  by (simp add: detectPair_def evalWith_def split: option.splits)

lemma evalWith_idem:
  "evalWith em cm c1 p1 a b (evalWith em cm c1 p1 a b v) = evalWith em cm c1 p1 a b v"
  by (simp add: evalWith_def evalPair_idem split: option.splits)

lemma detectPair_idem: "detectPair em cm a b (detectPair em cm a b v) = detectPair em cm a b v"
  by (simp add: detectPair_evalWith evalWith_idem split: option.splits)

lemma checkPair_same:
  "pairView a b (checkPair em cm a c1 p1 st b) = evalWith em cm c1 p1 a b (pairView a b st)"
proof (cases "a = b")
  case True
  then show ?thesis by (simp add: checkPair_def evalWith_def)
next
  case ab: False
  show ?thesis
  proof (cases "getComponents em b")
    case None
    with ab show ?thesis by (simp add: checkPair_def evalWith_def)
  next
    case (Some t)
    obtain c2 p2 s2 where t: "t = (c2, p2, s2)" by (cases t)
    show ?thesis
    proof (cases "getHandler cm (Group c1) (Group c2)")
      case None
      with ab Some t show ?thesis by (simp add: checkPair_def evalWith_def)
    next
      case h: (Some h)
      have "evalWith em cm c1 p1 a b (pairView a b st)
              = evalPair h (checkCollision p1 c1 p2 c2) (pairView a b st)"
        using ab Some t h by (simp add: evalWith_def)
      with checkPair_self [OF ab, of em c2 p2 s2 cm c1 h p1 st] Some t h show ?thesis
        by simp
    qed
  qed
qed

lemma inner_loop_other:
  "e1 \<noteq> a \<Longrightarrow> pairView a b (foldl (checkPair em cm e1 c1 p1) st ys) = pairView a b st"
  by (induction ys arbitrary: st) (simp_all add: checkPair_other)

lemma inner_loop_same:
  "pairView a b (foldl (checkPair em cm a c1 p1) st ys) =
     (if b \<in> set ys then evalWith em cm c1 p1 a b (pairView a b st) else pairView a b st)"
proof (induction ys arbitrary: st)
  case Nil
  show ?case by simp
next
  case (Cons y ys)
  show ?case
  proof (cases "y = b")
    case True
    then show ?thesis
      by (simp add: Cons.IH checkPair_same evalWith_idem)
  next
    case False
    then have "pairView a b (checkPair em cm a c1 p1 st y) = pairView a b st"
      by (simp add: checkPair_other)
    with False show ?thesis
      by (simp add: Cons.IH)
  qed
qed

lemma checkEntity_other:
  "e1 \<noteq> a \<Longrightarrow> pairView a b (checkEntity em cm ents st e1) = pairView a b st"
  by (simp add: checkEntity_def inner_loop_other split: option.splits)

lemma checkEntity_same:
  "pairView a b (checkEntity em cm ents st a) =
     (if b \<in> set ents then detectPair em cm a b (pairView a b st) else pairView a b st)"
  by (simp add: checkEntity_def inner_loop_same detectPair_evalWith split: option.splits)

lemma outer_loop:
  "pairView a b (foldl (checkEntity em cm ents) st xs) =
     (if a \<in> set xs \<and> b \<in> set ents then detectPair em cm a b (pairView a b st)
      else pairView a b st)"
proof (induction xs arbitrary: st)
  case Nil
  show ?case by simp
next
  case (Cons x xs)
  show ?case
  proof (cases "x = a")
    case True
    then show ?thesis
      by (simp add: Cons.IH checkEntity_same detectPair_idem)
  next
    case False
    then have "pairView a b (checkEntity em cm ents st x) = pairView a b st"
      by (simp add: checkEntity_other)
    with False show ?thesis
      by (simp add: Cons.IH)
  qed
qed

lemma wellFormedKey_collisionKey: "wellFormedKey (collisionKey a b)"
  by (simp add: wellFormedKey_def parse_collisionKey)

lemma leaveStep_same:
  "pairView a b (leaveStep em cm st (collisionKey a b)) = leavePair em cm a b (pairView a b st)"
  by (auto simp: leaveStep_def leavePair_def pairView_def parse_collisionKey delete_conv' Let_def
           split: option.splits prod.splits)

lemma leaveStep_other:
  assumes "k \<noteq> collisionKey a b" and "wellFormedKey k"
  shows "pairView a b (leaveStep em cm st k) = pairView a b st"
proof -
  obtain x y where xy: "parseCollisionKey k = (x, y)"
    by (cases "parseCollisionKey k")
  with assms have "collisionKey x y = k" "(x, y) \<noteq> (a, b)"
    by (auto simp: wellFormedKey_def)
  with assms(1) xy show ?thesis
    by (auto simp: leaveStep_def pairView_def delete_conv' Let_def
             split: option.splits prod.splits)
qed

lemma leave_loop:
  assumes "distinct ks" and "\<forall>k \<in> set ks. wellFormedKey k"
  shows "pairView a b (foldl (leaveStep em cm) st ks) =
           (if collisionKey a b \<in> set ks then leavePair em cm a b (pairView a b st)
            else pairView a b st)"
  using assms
proof (induction ks arbitrary: st)
  case Nil
  show ?case by simp
next
  case (Cons k ks)
  show ?case
  proof (cases "k = collisionKey a b")
    case True
    with Cons.prems have "collisionKey a b \<notin> set ks" by simp
    with Cons True show ?thesis
      by (simp add: leaveStep_same)
  next
    case False
    with Cons.prems have "pairView a b (leaveStep em cm st k) = pairView a b st"
      by (simp add: leaveStep_other)
    with Cons False show ?thesis
      by simp
  qed
qed

lemma keysOK_update: "keysOK m \<Longrightarrow> keysOK (AList.update (collisionKey x y) v m)"
  by (auto simp: keysOK_def list_all_iff distinct_update update_keys wellFormedKey_collisionKey)

lemma keysOK_delete: "keysOK m \<Longrightarrow> keysOK (AList.delete k m)"
  by (auto simp: keysOK_def list_all_iff distinct_delete delete_keys distinct_removeAll)

lemma checkPair_keysOK: "keysOK (tracked st) \<Longrightarrow> keysOK (tracked (checkPair em cm e1 c1 p1 st e2))"
  by (auto simp: checkPair_def Let_def keysOK_update split: option.splits)

lemma inner_loop_keysOK:
  "keysOK (tracked st) \<Longrightarrow> keysOK (tracked (foldl (checkPair em cm e1 c1 p1) st ys))"
  by (induction ys arbitrary: st) (simp_all add: checkPair_keysOK)

lemma checkEntity_keysOK: "keysOK (tracked st) \<Longrightarrow> keysOK (tracked (checkEntity em cm ents st e1))"
  by (simp add: checkEntity_def inner_loop_keysOK split: option.splits)

lemma outer_loop_keysOK:
  "keysOK (tracked st) \<Longrightarrow> keysOK (tracked (foldl (checkEntity em cm ents) st xs))"
  by (induction xs arbitrary: st) (simp_all add: checkEntity_keysOK)

lemma leaveStep_keysOK: "keysOK (tracked st) \<Longrightarrow> keysOK (tracked (leaveStep em cm st k))"
  by (auto simp: leaveStep_def Let_def keysOK_delete split: option.splits prod.splits)

lemma leave_loop_keysOK:
  "keysOK (tracked st) \<Longrightarrow> keysOK (tracked (foldl (leaveStep em cm) st ks))"
  by (induction ks arbitrary: st) (simp_all add: leaveStep_keysOK)

lemma tick_view:
  assumes "keysOK (previousCollisions cm)"
  shows "(map_of (previousCollisions (fst (CollisionManager_Update cm em))) (collisionKey a b) \<noteq> None,
          pairTrace a b (snd (CollisionManager_Update cm em)))
         = (case tickView em cm a b of (pr, cu, tk, tr) \<Rightarrow> (tk, tr))"
proof -
  define ents where "ents = GetEntitiesWithComponents em [''collider'', ''position'', ''size'']"
  define st0 where "st0 = \<lparr>processed = [], currentCollisions = [],
                            tracked = previousCollisions cm, trace = []\<rparr>"
  define st1 where "st1 = foldl (checkEntity em cm ents) st0 ents"
  define st2 where "st2 = foldl (leaveStep em cm) st1 (map fst (tracked st1))"
  define v0 where "v0 = (False, False, map_of (previousCollisions cm) (collisionKey a b) \<noteq> None,
                         [] :: action list)"
  define v1 where "v1 = (if a \<in> set ents \<and> b \<in> set ents then detectPair em cm a b v0 else v0)"
  have upd: "CollisionManager_Update cm em = (cm\<lparr>previousCollisions := tracked st2\<rparr>, trace st2)"
    by (simp add: CollisionManager_Update_def Let_def ents_def st0_def st1_def st2_def)
  have view0: "pairView a b st0 = v0"
    by (simp add: pairView_def st0_def v0_def)
  have view1: "pairView a b st1 = v1"
    unfolding st1_def outer_loop view0 v1_def by simp
  have ok1: "keysOK (tracked st1)"
    unfolding st1_def by (rule outer_loop_keysOK) (simp add: st0_def assms)
  then have ks: "distinct (map fst (tracked st1))" "\<forall>k \<in> set (map fst (tracked st1)). wellFormedKey k"
    by (simp_all add: keysOK_def list_all_iff)
  have mem: "collisionKey a b \<in> set (map fst (tracked st1))
               \<longleftrightarrow> map_of (tracked st1) (collisionKey a b) \<noteq> None"
    by (simp add: map_of_eq_None_iff)
  have view2: "pairView a b st2 =
                 (if map_of (tracked st1) (collisionKey a b) \<noteq> None
                  then leavePair em cm a b v1 else v1)"
    unfolding st2_def leave_loop [OF ks] mem view1 by simp
  obtain pr cu tk tr where v1eq: "v1 = (pr, cu, tk, tr)"
    by (cases v1)
  with view1 have tk: "tk \<longleftrightarrow> map_of (tracked st1) (collisionKey a b) \<noteq> None"
    by (simp add: pairView_def)
  have "tickView em cm a b =
          (case v1 of (pr, cu, tk, tr) \<Rightarrow> if tk then leavePair em cm a b v1 else v1)"
    unfolding tickView_def Let_def v1_def v0_def ents_def ..
  then have tv: "tickView em cm a b = (if tk then leavePair em cm a b v1 else v1)"
    by (simp add: v1eq)
  have "pairView a b st2 = tickView em cm a b"
    using view2 tk tv by simp
  then show ?thesis
    by (auto simp: upd pairView_def split: prod.splits)
qed

lemma Update_keysOK:
  assumes "keysOK (previousCollisions cm)"
  shows "keysOK (previousCollisions (fst (CollisionManager_Update cm em)))"
  by (simp add: CollisionManager_Update_def Let_def leave_loop_keysOK outer_loop_keysOK assms)

lemma keysOK_New: "keysOK (previousCollisions NewCollisionManager)"
  by (simp add: NewCollisionManager_def keysOK_def)

lemma keysOK_AddResolve:
  "keysOK (previousCollisions cm) \<Longrightarrow> keysOK (previousCollisions (AddResolve ga gb h cm))"
  by (simp add: AddResolve_def Let_def)

lemma Update_handlers: "handlers (fst (CollisionManager_Update cm em)) = handlers cm"
  by (simp add: CollisionManager_Update_def Let_def)

section \<open>Collision engine: one tick\<close>

lemma getHandler_handlers: "handlers cm' = handlers cm \<Longrightarrow> getHandler cm' = getHandler cm"
  by (intro ext) (simp add: getHandler_def)

lemma pairStatus_handlers:
  "handlers cm' = handlers cm \<Longrightarrow> pairStatus cm' em a b = pairStatus cm em a b"
proof -
  assume "handlers cm' = handlers cm"
  then have same: "getHandler cm' = getHandler cm"
    by (rule getHandler_handlers)
  show ?thesis
    unfolding pairStatus_def same ..
qed

lemma tickView_pair:
  assumes "pairStatus cm em a b = Some (h, ov)"
  shows "tickView em cm a b =
           (True, ov, ov,
            Tested ov #
              (if ov then
                 (if map_of (previousCollisions cm) (collisionKey a b) \<noteq> None
                  then (if Stay h then [Called OnStay] else [])
                  else (if Enter h then [Called OnEnter] else []))
               else
                 (if map_of (previousCollisions cm) (collisionKey a b) \<noteq> None
                  then (if Leave h then [Called OnLeave] else [])
                  else [])))"
proof -
  define ents where "ents = GetEntitiesWithComponents em [''collider'', ''position'', ''size'']"
  from assms have ab: "a \<noteq> b" "a \<in> set ents" "b \<in> set ents"
    by (auto simp: pairStatus_def Let_def ents_def split: if_splits)
  with assms obtain c1 p1 s1 c2 p2 s2
    where A: "getComponents em a = Some (c1, p1, s1)"
      and B: "getComponents em b = Some (c2, p2, s2)"
      and H: "getHandler cm (Group c1) (Group c2) = Some h"
      and O: "ov = checkCollision p1 c1 p2 c2"
    by (auto simp: pairStatus_def Let_def ents_def split: option.splits prod.splits)
  show ?thesis
    using ab A B H O
    by (simp add: tickView_def Let_def ents_def [symmetric] detectPair_def evalPair_def
          leavePair_def)
qed

text \<open>
  One tick for a pair that is collidable and has a handler: the overlap test runs once;
  if the pair overlaps, \<^verbatim>\<open>Enter\<close> is called when the key was not tracked and \<^verbatim>\<open>Stay\<close>
  when it was; if it does not, \<^verbatim>\<open>Leave\<close> is called when the key was tracked. Afterwards
  the key is tracked exactly when the pair overlaps. A callback that is not set is not
  called.
\<close>

lemma tick_pair:
  assumes "keysOK (previousCollisions cm)" and "pairStatus cm em a b = Some (h, ov)"
  shows "pairTrace a b (snd (CollisionManager_Update cm em)) =
            Tested ov #
              (if ov then
                 (if map_of (previousCollisions cm) (collisionKey a b) \<noteq> None
                  then (if Stay h then [Called OnStay] else [])
                  else (if Enter h then [Called OnEnter] else []))
               else
                 (if map_of (previousCollisions cm) (collisionKey a b) \<noteq> None
                  then (if Leave h then [Called OnLeave] else [])
                  else []))"
    and "map_of (previousCollisions (fst (CollisionManager_Update cm em))) (collisionKey a b) \<noteq> None
           \<longleftrightarrow> ov"
  using tick_view [OF assms(1), of em a b] tickView_pair [OF assms(2)]
  by simp_all

lemma runTicks_Cons:
  "runTicks cm (em # ems) =
     (fst (runTicks (fst (CollisionManager_Update cm em)) ems),
      snd (CollisionManager_Update cm em) # snd (runTicks (fst (CollisionManager_Update cm em)) ems))"
  by (simp add: Let_def)

section \<open>Collision engine: the transition law\<close>

text \<open>
  Four consecutive ticks in which the pair is collidable with a registered handler and
  its overlap test gives false, true, true, false, from any state of the manager. The
  first tick calls \<^verbatim>\<open>Leave\<close> when the key is tracked before it, that is, when the pair
  overlapped in the tick before.
\<close>

lemma four_ticks:
  fixes em1 em2 em3 em4 :: "'f::{minus,inverse,numeral,ord} ECSManager"
  assumes "keysOK (previousCollisions cm)"
    and "pairStatus cm em1 a b = Some (h1, False)"
    and "pairStatus cm em2 a b = Some (h2, True)"
    and "pairStatus cm em3 a b = Some (h3, True)"
    and "pairStatus cm em4 a b = Some (h4, False)"
  shows "map (pairTrace a b) (snd (runTicks cm [em1, em2, em3, em4])) =
           [Tested False #
              (if map_of (previousCollisions cm) (collisionKey a b) \<noteq> None
               then (if Leave h1 then [Called OnLeave] else []) else []),
            Tested True # (if Enter h2 then [Called OnEnter] else []),
            Tested True # (if Stay h3 then [Called OnStay] else []),
            Tested False # (if Leave h4 then [Called OnLeave] else [])]
         \<and> map_of (previousCollisions (fst (runTicks cm [em1, em2, em3, em4]))) (collisionKey a b)
             = None"
proof -
  define cm1 where "cm1 = fst (CollisionManager_Update cm em1)"
  define cm2 where "cm2 = fst (CollisionManager_Update cm1 em2)"
  define cm3 where "cm3 = fst (CollisionManager_Update cm2 em3)"
  define cm4 where "cm4 = fst (CollisionManager_Update cm3 em4)"
  have ok: "keysOK (previousCollisions cm1)" "keysOK (previousCollisions cm2)"
           "keysOK (previousCollisions cm3)"
    by (simp_all add: cm1_def cm2_def cm3_def Update_keysOK assms(1))
  have hs: "handlers cm1 = handlers cm" "handlers cm2 = handlers cm" "handlers cm3 = handlers cm"
    by (simp_all add: cm1_def cm2_def cm3_def Update_handlers)
  have s1: "pairStatus cm em1 a b = Some (h1, False)"
    and s2: "pairStatus cm1 em2 a b = Some (h2, True)"
    and s3: "pairStatus cm2 em3 a b = Some (h3, True)"
    and s4: "pairStatus cm3 em4 a b = Some (h4, False)"
    using assms(2-5)
    by (simp_all only: pairStatus_handlers [OF hs(1)] pairStatus_handlers [OF hs(2)]
          pairStatus_handlers [OF hs(3)])
  have t1: "pairTrace a b (snd (CollisionManager_Update cm em1)) =
              Tested False #
                (if map_of (previousCollisions cm) (collisionKey a b) \<noteq> None
                 then (if Leave h1 then [Called OnLeave] else []) else [])"
    and k1: "map_of (previousCollisions cm1) (collisionKey a b) = None"
    using tick_pair [OF assms(1) s1] by (simp_all add: cm1_def)
  have t2: "pairTrace a b (snd (CollisionManager_Update cm1 em2)) =
              Tested True # (if Enter h2 then [Called OnEnter] else [])"
    and k2: "map_of (previousCollisions cm2) (collisionKey a b) \<noteq> None"
    using tick_pair [OF ok(1) s2] k1 by (simp_all add: cm2_def)
  have t3: "pairTrace a b (snd (CollisionManager_Update cm2 em3)) =
              Tested True # (if Stay h3 then [Called OnStay] else [])"
    and k3: "map_of (previousCollisions cm3) (collisionKey a b) \<noteq> None"
    using tick_pair [OF ok(2) s3] k2 by (simp_all add: cm3_def)
  have t4: "pairTrace a b (snd (CollisionManager_Update cm3 em4)) =
              Tested False # (if Leave h4 then [Called OnLeave] else [])"
    and k4: "map_of (previousCollisions cm4) (collisionKey a b) = None"
    using tick_pair [OF ok(3) s4] k3 by (simp_all add: cm4_def)
  have r4: "runTicks cm3 [em4] = (cm4, [snd (CollisionManager_Update cm3 em4)])"
    unfolding runTicks_Cons cm4_def by (simp only: runTicks.simps fst_conv snd_conv)
  have r3: "runTicks cm2 [em3, em4] =
              (cm4, [snd (CollisionManager_Update cm2 em3), snd (CollisionManager_Update cm3 em4)])"
    unfolding runTicks_Cons [of cm2 em3] cm3_def [symmetric] r4
    by (simp only: fst_conv snd_conv)
  have r2: "runTicks cm1 [em2, em3, em4] =
              (cm4, [snd (CollisionManager_Update cm1 em2), snd (CollisionManager_Update cm2 em3),
                     snd (CollisionManager_Update cm3 em4)])"
    unfolding runTicks_Cons [of cm1 em2] cm2_def [symmetric] r3
    by (simp only: fst_conv snd_conv)
  have run: "runTicks cm [em1, em2, em3, em4] =
               (cm4, [snd (CollisionManager_Update cm em1), snd (CollisionManager_Update cm1 em2),
                      snd (CollisionManager_Update cm2 em3), snd (CollisionManager_Update cm3 em4)])"
    unfolding runTicks_Cons [of cm em1] cm1_def [symmetric] r2
    by (simp only: fst_conv snd_conv)
  show ?thesis
    unfolding run by (simp add: t1 t2 t3 t4 k4)
qed

text \<open>
  C4, as the code runs it. A pair that is collidable with a registered handler in four
  consecutive ticks, whose key is not tracked before the first of them (a new manager,
  or no overlap in the tick before), whose handlers have the callbacks set, and whose
  overlap test gives false, true, true, false: its part of the four traces is the test
  alone, then the test and \<^verbatim>\<open>Enter\<close>, then the test and \<^verbatim>\<open>Stay\<close>, then the test and
  \<^verbatim>\<open>Leave\<close>; after the fourth tick its key is not tracked. The registry may differ from
  tick to tick; the callbacks are taken not to change the registry or the manager.
\<close>

theorem collision_transition_law:
  fixes em1 em2 em3 em4 :: "'f::{minus,inverse,numeral,ord} ECSManager"
  assumes "keysOK (previousCollisions cm)"
    and "map_of (previousCollisions cm) (collisionKey a b) = None"
    and "pairStatus cm em1 a b = Some (h1, False)"
    and "pairStatus cm em2 a b = Some (h2, True)"
    and "pairStatus cm em3 a b = Some (h3, True)"
    and "pairStatus cm em4 a b = Some (h4, False)"
    and "Enter h2" and "Stay h3" and "Leave h4"
  shows "map (pairTrace a b) (snd (runTicks cm [em1, em2, em3, em4])) =
           [[Tested False],
            [Tested True, Called OnEnter],
            [Tested True, Called OnStay],
            [Tested False, Called OnLeave]]
         \<and> map_of (previousCollisions (fst (runTicks cm [em1, em2, em3, em4]))) (collisionKey a b)
             = None"
  using four_ticks [OF assms(1) assms(3-6)] assms(2) assms(7-9)
  by simp

text \<open>The two colliders apart, overlapping twice, and apart again.\<close>

lemma keysOK_oneWay: "keysOK (previousCollisions oneWay)"
  by (simp add: oneWay_def AddResolve_def NewCollisionManager_def keysOK_def Let_def)


lemma twoColliders_query:
  "GetEntitiesWithComponents (twoColliders x y) [''collider'', ''position'', ''size''] = [1, 2]"
  by (simp add: GetEntitiesWithComponents_def hasAllNames_def twoColliders_def)

lemma twoColliders_components:
  "getComponents (twoColliders x y) 1
     = Some (plainCollider ''a'', \<lparr>PosX = 0, PosY = 0\<rparr>, box10)"
  "getComponents (twoColliders x y) 2
     = Some (plainCollider ''b'', \<lparr>PosX = x, PosY = y\<rparr>, box10)"
  by (simp_all add: getComponents_def GetComponent_def twoColliders_def)

lemma oneWay_handler: "getHandler oneWay ''a'' ''b'' = Some allCallbacks"
  by (simp add: getHandler_def oneWay_def AddResolve_def NewCollisionManager_def Let_def)


lemma oneWay_status:
  "pairStatus oneWay (twoColliders 50 50) 1 2 = Some (allCallbacks, False)"
  "pairStatus oneWay (twoColliders 5 5) 1 2 = Some (allCallbacks, True)"
  by (simp_all add: pairStatus_def twoColliders_query twoColliders_components oneWay_handler
        plainCollider_def checkCollision_def rectOverlap_def Let_def)


theorem collision_transition_law_witness:
  "map (pairTrace 1 2)
       (snd (runTicks oneWay [twoColliders 50 50, twoColliders 5 5,
                              twoColliders 5 5, twoColliders 50 50])) =
     [[Tested False],
      [Tested True, Called OnEnter],
      [Tested True, Called OnStay],
      [Tested False, Called OnLeave]]
   \<and> map_of (previousCollisions
               (fst (runTicks oneWay [twoColliders 50 50, twoColliders 5 5,
                                      twoColliders 5 5, twoColliders 50 50])))
            (collisionKey 1 2) = None"
proof -
  have untracked: "map_of (previousCollisions oneWay) (collisionKey 1 2) = None"
    by (simp add: oneWay_def AddResolve_def NewCollisionManager_def Let_def)
  have cbs: "Enter allCallbacks" "Stay allCallbacks" "Leave allCallbacks"
    by (simp_all add: allCallbacks_def)
  show ?thesis
    by (rule collision_transition_law
               [OF keysOK_oneWay untracked oneWay_status(1) oneWay_status(2) oneWay_status(2)
                   oneWay_status(1) cbs])
qed

text \<open>
  C4, as the claim states it: whenever four consecutive ticks have the overlap states
  false, true, true, false, no callback is called in the first of them and the callbacks
  are \<^verbatim>\<open>Enter\<close>, \<^verbatim>\<open>Stay\<close>, \<^verbatim>\<open>Leave\<close>. From a new manager, let the two colliders overlap
  in one tick and then be apart, overlapping, overlapping and apart: in those last four
  ticks the callbacks are \<^verbatim>\<open>Leave\<close>, \<^verbatim>\<open>Enter\<close>, \<^verbatim>\<open>Stay\<close>, \<^verbatim>\<open>Leave\<close>.
\<close>

theorem leave_in_first_of_four_ticks:
  "previousCollisions oneWay = []
   \<and> pairStatus oneWay (twoColliders 5 5) 1 2 = Some (allCallbacks, True)
   \<and> pairStatus oneWay (twoColliders 50 50) 1 2 = Some (allCallbacks, False)
   \<and> map (pairTrace 1 2)
          (snd (runTicks oneWay [twoColliders 5 5, twoColliders 50 50, twoColliders 5 5,
                                 twoColliders 5 5, twoColliders 50 50])) =
        [[Tested True, Called OnEnter],
         [Tested False, Called OnLeave],
         [Tested True, Called OnEnter],
         [Tested True, Called OnStay],
         [Tested False, Called OnLeave]]"
proof -
  define cm1 where "cm1 = fst (CollisionManager_Update oneWay (twoColliders 5 5))"
  have empty: "previousCollisions oneWay = []"
    by (simp add: oneWay_def AddResolve_def NewCollisionManager_def Let_def)
  have first: "pairTrace 1 2 (snd (CollisionManager_Update oneWay (twoColliders 5 5)))
                 = [Tested True, Called OnEnter]"
    using tick_pair(1) [OF keysOK_oneWay oneWay_status(2)]
    by (simp add: empty allCallbacks_def)
  have tracked1: "map_of (previousCollisions cm1) (collisionKey 1 2) \<noteq> None"
    using tick_pair(2) [OF keysOK_oneWay oneWay_status(2)] by (simp add: cm1_def)
  have ok1: "keysOK (previousCollisions cm1)"
    unfolding cm1_def by (rule Update_keysOK [OF keysOK_oneWay])
  have hs: "handlers cm1 = handlers oneWay"
    unfolding cm1_def by (rule Update_handlers)
  have far: "pairStatus cm1 (twoColliders 50 50) 1 2 = Some (allCallbacks, False)"
    and near: "pairStatus cm1 (twoColliders 5 5) 1 2 = Some (allCallbacks, True)"
    using oneWay_status by (simp_all only: pairStatus_handlers [OF hs])
  have rest: "map (pairTrace 1 2)
                  (snd (runTicks cm1 [twoColliders 50 50, twoColliders 5 5,
                                      twoColliders 5 5, twoColliders 50 50])) =
                [[Tested False, Called OnLeave],
                 [Tested True, Called OnEnter],
                 [Tested True, Called OnStay],
                 [Tested False, Called OnLeave]]"
    using four_ticks [OF ok1 far near near far] tracked1
    by (simp add: allCallbacks_def)
  have "map (pairTrace 1 2)
          (snd (runTicks oneWay (twoColliders 5 5 # [twoColliders 50 50, twoColliders 5 5,
                                 twoColliders 5 5, twoColliders 50 50]))) =
        pairTrace 1 2 (snd (CollisionManager_Update oneWay (twoColliders 5 5))) #
        map (pairTrace 1 2)
          (snd (runTicks cm1 [twoColliders 50 50, twoColliders 5 5,
                              twoColliders 5 5, twoColliders 50 50]))"
    unfolding runTicks_Cons [of oneWay "twoColliders 5 5"] cm1_def [symmetric]
    by (simp only: snd_conv list.map)
  then show ?thesis
    by (simp only: first rest empty oneWay_status simp_thms)
qed

section \<open>Collision engine: ordered pairs\<close>





end
